theory Spec2Isabelle
  imports Main "HOL-Library.Word" "HOL-Library.AList"
begin

unbundle bit_operations_syntax

section \<open>Exceptions\<close>

text \<open>
  The Python exceptions that the modelled functions can raise.  A function that can raise
  returns a sum, with \<open>Inl\<close> carrying the exception.  \<open>Unmodelled\<close> marks an input on
  which the model does not follow Python (a replacement field of \<open>str.format\<close> with a
  conversion, a format specification or an attribute access).
\<close>

datatype error = ValueError | TypeError | IndexError | KeyError | AttributeError
  | NameError | OverflowError | StopIteration | Unmodelled

section \<open>ORCA packets (\<open>orca_packet.py\<close>)\<close>

text \<open>
  An ORCA packet is a one-dimensional array of \<open>uint32\<close>: a list of 32-bit words.
  \<open>packet[0]\<close> raises \<open>IndexError\<close> on an empty array.  The masks and shift counts are
  those of the source; \<open>>>\<close> on \<open>uint32\<close> is \<open>drop_bit\<close>.
\<close>

type_synonym OrcaPacket = "32 word list"

fun first_word :: "OrcaPacket \<Rightarrow> error + 32 word" where
  "first_word [] = Inl IndexError"
| "first_word (w # ws) = Inr w"

definition is_short :: "OrcaPacket \<Rightarrow> error + bool" where
  "is_short packet =
     (case first_word packet of
        Inl e \<Rightarrow> Inl e
      | Inr w \<Rightarrow> Inr (drop_bit 31 w \<noteq> 0))"

definition get_n_words :: "OrcaPacket \<Rightarrow> error + nat" where
  "get_n_words packet =
     (case is_short packet of
        Inl e \<Rightarrow> Inl e
      | Inr True \<Rightarrow> Inr 1
      | Inr False \<Rightarrow>
          (case first_word packet of
             Inl e \<Rightarrow> Inl e
           | Inr w \<Rightarrow> Inr (unat (w AND 0x3FFFF))))"

definition get_data_id :: "OrcaPacket \<Rightarrow> bool \<Rightarrow> error + 32 word" where
  "get_data_id packet shift =
     (case is_short packet of
        Inl e \<Rightarrow> Inl e
      | Inr True \<Rightarrow>
          (case first_word packet of
             Inl e \<Rightarrow> Inl e
           | Inr w \<Rightarrow>
               if shift then Inr (drop_bit 26 (w AND 0xFC000000))
               else Inr (w AND 0xFC000000))
      | Inr False \<Rightarrow>
          (case first_word packet of
             Inl e \<Rightarrow> Inl e
           | Inr w \<Rightarrow>
               if shift then Inr (drop_bit 18 (w AND 0xFFFC0000))
               else Inr (w AND 0xFFFC0000)))"

text \<open>
  The bit field of a word that starts at bit \<open>lo\<close> and is \<open>n\<close> bits wide, as a number
  (shifted down to bit 0) and in place (every other bit cleared).
\<close>

definition bit_field :: "nat \<Rightarrow> nat \<Rightarrow> 32 word \<Rightarrow> 32 word" where
  "bit_field lo n w = take_bit n (drop_bit lo w)"

definition bit_field_in_place :: "nat \<Rightarrow> nat \<Rightarrow> 32 word \<Rightarrow> 32 word" where
  "bit_field_in_place lo n w = push_bit lo (take_bit n (drop_bit lo w))"

section \<open>The ragged store (\<open>vectorofvectors.py\<close>)\<close>

subsection \<open>NumPy arrays\<close>

text \<open>
  A NumPy array is its shape and its elements in row-major order; it is well formed when
  the number of elements is the product of the shape.  \<open>vec xs\<close> is the one-dimensional
  array of the elements \<open>xs\<close>.  \<open>len(nda)\<close> is the first entry of the shape and raises
  \<open>TypeError\<close> on a zero-dimensional array.
\<close>

record 'a ndarray =
  shape :: "nat list"
  flat :: "'a list"

definition wf_ndarray :: "'a ndarray \<Rightarrow> bool" where
  "wf_ndarray a = (length (flat a) = prod_list (shape a))"

definition vec :: "'a list \<Rightarrow> 'a ndarray" where
  "vec xs = \<lparr>shape = [length xs], flat = xs\<rparr>"

fun len_nda :: "'a ndarray \<Rightarrow> error + nat" where
  "len_nda a = (case shape a of [] \<Rightarrow> Inl TypeError | n # ns \<Rightarrow> Inr n)"

text \<open>
  \<open>ndarray.resize(n, refcheck=True)\<close> on a one-dimensional array, in place.  \<open>refs\<close>
  counts the references to the array besides the one of its owner: every view of it that
  is alive, every other variable bound to it; an array that does not own its data counts
  as referenced.  A resize to the length the array already has does nothing.  Any other
  resize of a referenced array raises \<open>ValueError\<close>; otherwise a shorter array is cut
  and a longer one is filled up with zeros.
\<close>

definition nda_resize :: "nat \<Rightarrow> nat \<Rightarrow> 'a::zero list \<Rightarrow> error + 'a list" where
  "nda_resize n refs xs =
     (if n = length xs then Inr xs
      else if refs > 0 then Inl ValueError
      else Inr (take n xs @ replicate (n - length xs) 0))"

text \<open>
  The slice \<open>xs[start:stop]\<close> for indices that are not negative: both indices are
  clamped to the length, and a slice with \<open>stop < start\<close> is empty.
\<close>

definition slice :: "'a list \<Rightarrow> nat \<Rightarrow> nat \<Rightarrow> 'a list" where
  "slice xs start stop = drop start (take stop xs)"

text \<open>
  The assignment \<open>xs[start:stop] = vals\<close> of a one-dimensional \<open>vals\<close>.  The shapes
  are compared first: a single value is broadcast over the slice, and any other length
  mismatch raises \<open>ValueError\<close> with nothing written.  Then every value is converted to
  the element type of \<open>xs\<close> by \<open>cast\<close>, in order, and written; the first value that
  cannot be converted raises what \<open>cast\<close> raises, the values before it having been
  written.  The result is the exception, if any, and the array as the assignment leaves
  it.
\<close>

fun cast_all :: "('b \<Rightarrow> error + 'a) \<Rightarrow> 'b list \<Rightarrow> 'a list \<times> error option" where
  "cast_all cast [] = ([], None)"
| "cast_all cast (v # vs) =
     (case cast v of
        Inl e \<Rightarrow> ([], Some e)
      | Inr y \<Rightarrow> (case cast_all cast vs of (ys, r) \<Rightarrow> (y # ys, r)))"

definition slice_assign ::
  "'a list \<Rightarrow> nat \<Rightarrow> nat \<Rightarrow> ('b \<Rightarrow> error + 'a) \<Rightarrow> 'b list \<Rightarrow> error option \<times> 'a list" where
  "slice_assign xs start stop cast vals =
     (let lo = min start (length xs);
          hi = max lo (min stop (length xs))
      in if length vals = hi - lo then
           (case cast_all cast vals of
              (ys, r) \<Rightarrow> (r, take lo xs @ ys @ drop (lo + length ys) xs))
         else if length vals = 1 then
           (case cast (hd vals) of
              Inl e \<Rightarrow> (Some e, xs)
            | Inr y \<Rightarrow> (None, take lo xs @ replicate (hi - lo) y @ drop hi xs))
         else (Some ValueError, xs))"

subsection \<open>The class \<open>VectorOfVectors\<close>\<close>

text \<open>
  The two arrays of the store, the element type name, the user attributes, and the cursor
  of the iterator (\<open>None\<close> until \<open>__iter__\<close> sets it).  The cumulative lengths are
  \<open>uint32\<close>.  \<open>flattened_refs\<close> counts the references to the array of the flattened
  data besides the store's own, as \<open>refcheck\<close> sees them.
\<close>

record 'a VectorOfVectors =
  flattened_data :: "'a list"
  cumulative_length :: "32 word list"
  dtype :: string
  attrs :: "(string \<times> string) list"
  index :: "nat option"
  flattened_refs :: nat

text \<open>
  \<open>form_datatype\<close>.  The element type name comes from \<open>get_element_type\<close> of
  \<open>lgdo_utils\<close>, which is not part of the sources at hand: it is the parameter \<open>et\<close>.
\<close>

definition form_datatype :: "string \<Rightarrow> string" where
  "form_datatype et = ''array<1>{array<1>{'' @ et @ ''}}''"

text \<open>
  \<open>__init__\<close>.  A supplied \<open>flattened_data\<close> is an \<open>Array\<close>: its elements, its
  \<open>dtype\<close>, and the count of the other references to its array.  The class \<open>Array\<close>
  is not part of the sources at hand; of its constructor the model keeps what the calls
  here say: \<open>Array(shape=(n,), dtype='uint32', fill_val=0)\<close> is \<open>n\<close> zeros, and
  \<open>Array(shape=(n,), dtype=dtype)\<close> has \<open>n\<close> elements whose values are whatever the
  fresh memory holds, the parameter \<open>fresh\<close>; nothing else refers to a fresh array.
  Shapes are natural numbers.  With \<open>shape_guess\<close> left at \<open>None\<close>,
  \<open>shape_guess[0]\<close> raises \<open>TypeError\<close>, \<open>np.prod(None)\<close> is \<open>None\<close>, and a shape
  \<open>(None,)\<close> raises \<open>TypeError\<close>.  A datatype attribute that does not match only logs
  a warning.
\<close>

definition VectorOfVectors_init ::
  "(nat \<Rightarrow> 'a) \<Rightarrow> string \<Rightarrow> ('a list \<times> string \<times> nat) option \<Rightarrow> 32 word list option \<Rightarrow>
   (nat \<times> nat) option \<Rightarrow> string option \<Rightarrow> (string \<times> string) list option \<Rightarrow>
   error + 'a VectorOfVectors" where
  "VectorOfVectors_init fresh et flattened_data_arg cumulative_length_arg shape_guess dtype_arg attrs_arg =
     (case (case cumulative_length_arg of
              None \<Rightarrow> (case shape_guess of
                          None \<Rightarrow> Inl TypeError
                        | Some (n, m) \<Rightarrow> Inr (replicate n 0))
            | Some cl \<Rightarrow> Inr cl) of
        Inl e \<Rightarrow> Inl e
      | Inr cl \<Rightarrow>
          (case (case flattened_data_arg of
                   None \<Rightarrow>
                     (case dtype_arg of
                        None \<Rightarrow> Inl ValueError
                      | Some d \<Rightarrow>
                          (case shape_guess of
                             None \<Rightarrow> Inl TypeError
                           | Some (n, m) \<Rightarrow> Inr (map fresh [0..<n * m], d, 0)))
                 | Some (fd, d0, refs) \<Rightarrow>
                     (case dtype_arg of
                        None \<Rightarrow> Inr (fd, d0, refs)
                      | Some d \<Rightarrow> Inr (fd, d, refs))) of
             Inl e \<Rightarrow> Inl e
           | Inr (fd, d, refs) \<Rightarrow>
               (let a = (case attrs_arg of None \<Rightarrow> [] | Some a0 \<Rightarrow> a0);
                    a' = (case map_of a ''datatype'' of
                            Some t \<Rightarrow> a
                          | None \<Rightarrow> AList.update ''datatype'' (form_datatype et) a)
                in Inr \<lparr>flattened_data = fd, cumulative_length = cl, dtype = d,
                        attrs = a', index = None, flattened_refs = refs\<rparr>)))"

text \<open>
  \<open>resize\<close> hands the new size to \<open>Array.resize\<close> of the cumulative lengths and does
  nothing else.
\<close>

text \<open>
  Modelled from the spec: \<open>Array.resize\<close> of \<open>pygama.lgdo.array\<close>, which is not part of
  the sources at hand.  The spec says that \<open>resize(newRowCount)\<close> truncates or grows
  the offsets: the array is cut or filled up with zeros to the new length.
\<close>

definition Array_resize :: "nat \<Rightarrow> 'a::zero list \<Rightarrow> 'a list" where
  "Array_resize new_size nda = take new_size nda @ replicate (new_size - length nda) 0"

definition resize :: "nat \<Rightarrow> 'a VectorOfVectors \<Rightarrow> 'a VectorOfVectors" where
  "resize new_size self =
     self\<lparr>cumulative_length := Array_resize new_size (cumulative_length self)\<rparr>"

text \<open>
  The loop
  \<open>while end >= len(flattened_data): flattened_data.resize(2 * len(flattened_data), refcheck=True)\<close>
  of \<open>set_vector\<close>.  It may run forever, and then the value is \<open>None\<close>; otherwise the
  value is the exception that a resize raised, if any, and the array as the loop leaves
  it.
\<close>

partial_function (option) grow_flattened ::
  "nat \<Rightarrow> nat \<Rightarrow> 'a::zero list \<Rightarrow> (error option \<times> 'a list) option" where
  "grow_flattened refs stop xs =
     (if stop \<ge> length xs then
        (case nda_resize (2 * length xs) refs xs of
           Inl e \<Rightarrow> Some (Some e, xs)
         | Inr ys \<Rightarrow> grow_flattened refs stop ys)
      else Some (None, xs))"

declare grow_flattened.simps [code]

text \<open>
  \<open>set_vector\<close>.  The result is \<open>None\<close> when the call never returns; otherwise it is
  the exception raised or \<open>Inr ()\<close>, together with the store as the call leaves it.
  \<open>cast\<close> converts an element of \<open>nda\<close> to the element type of the store, as the
  assignment to the slice does; it is \<open>Inr\<close> when \<open>nda\<close> has the type of the store.

  \<open>start\<close> is the Python integer 0 for the first row and a \<open>uint32\<close> for every other
  row, and \<open>end\<close> (here \<open>stop\<close>) is \<open>start + len(nda)\<close>.  What the sum of a \<open>uint32\<close>
  and a Python integer is depends on NumPy, the parameter \<open>nep50\<close>: before NumPy 2
  (\<open>False\<close>) it is a 64-bit integer that does not wrap here, and writing it to the
  \<open>uint32\<close> array cuts it to 32 bits; from NumPy 2 on (\<open>True\<close>) it is a \<open>uint32\<close>
  that wraps, and a Python integer that does not fit \<open>uint32\<close> raises
  \<open>OverflowError\<close>, in the sum and when it is written to the array.
\<close>

definition set_vector ::
  "bool \<Rightarrow> ('b \<Rightarrow> error + 'a) \<Rightarrow> int \<Rightarrow> 'b ndarray \<Rightarrow> 'a::zero VectorOfVectors \<Rightarrow>
   ((error + unit) \<times> 'a VectorOfVectors) option" where
  "set_vector nep50 cast i_vec nda self =
     (if i_vec < 0 \<or> i_vec > int (length (cumulative_length self)) - 1
      then Some (Inl ValueError, self)
      else if length (shape nda) \<noteq> 1
      then Some (Inl ValueError, self)
      else
        (case len_nda nda of
           Inl e \<Rightarrow> Some (Inl e, self)
         | Inr n \<Rightarrow>
             (let start = (if i_vec = 0 then 0
                           else unat (cumulative_length self ! nat (i_vec - 1)))
              in if nep50 \<and> i_vec \<noteq> 0 \<and> n \<ge> 2 ^ 32 then Some (Inl OverflowError, self)
                 else
                   (let stop = (if nep50 \<and> i_vec \<noteq> 0 then (start + n) mod 2 ^ 32
                                else start + n)
                    in case grow_flattened (flattened_refs self) stop (flattened_data self) of
                         None \<Rightarrow> None
                       | Some (Some e, fd) \<Rightarrow> Some (Inl e, self\<lparr>flattened_data := fd\<rparr>)
                       | Some (None, fd) \<Rightarrow>
                           (case slice_assign fd start stop cast (flat nda) of
                              (Some e, fd') \<Rightarrow> Some (Inl e, self\<lparr>flattened_data := fd'\<rparr>)
                            | (None, fd') \<Rightarrow>
                                if nep50 \<and> stop \<ge> 2 ^ 32
                                then Some (Inl OverflowError, self\<lparr>flattened_data := fd'\<rparr>)
                                else Some (Inr (),
                                       self\<lparr>flattened_data := fd',
                                         cumulative_length :=
                                           (cumulative_length self)
                                             [nat i_vec := of_nat stop]\<rparr>))))))"

text \<open>
  The iterator: \<open>__iter__\<close> resets the cursor; \<open>__next__\<close> returns the next row and
  moves the cursor, or raises \<open>StopIteration\<close> when an index is out of range.  Reading
  the cursor before \<open>__iter__\<close> has set it raises \<open>AttributeError\<close>.  The row returned
  is a view of the flattened data, so it is one more reference to that array.
\<close>

definition iter :: "'a VectorOfVectors \<Rightarrow> 'a VectorOfVectors" where
  "iter self = self\<lparr>index := Some 0\<rparr>"

definition next_row :: "'a VectorOfVectors \<Rightarrow> (error + 'a list) \<times> 'a VectorOfVectors" where
  "next_row self =
     (case index self of
        None \<Rightarrow> (Inl AttributeError, self)
      | Some i \<Rightarrow>
          (let cl = cumulative_length self in
           if i = 0 then
             (if 0 < length cl
              then (Inr (slice (flattened_data self) 0 (unat (cl ! 0))),
                    self\<lparr>index := Some (i + 1), flattened_refs := flattened_refs self + 1\<rparr>)
              else (Inl StopIteration, self))
           else
             (if i < length cl
              then (Inr (slice (flattened_data self) (unat (cl ! (i - 1))) (unat (cl ! i))),
                    self\<lparr>index := Some (i + 1), flattened_refs := flattened_refs self + 1\<rparr>)
              else (Inl StopIteration, self))))"

text \<open>
  \<open>list(self)\<close>: \<open>__iter__\<close>, then \<open>__next__\<close> until it raises \<open>StopIteration\<close>.
  The value is the list of the rows, or the exception that ended the loop, together with
  the store as the loop leaves it.
\<close>

function collect :: "'a VectorOfVectors \<Rightarrow> (error + 'a list list) \<times> 'a VectorOfVectors" where
  "collect self =
     (case next_row self of
        (Inl e, self') \<Rightarrow> (if e = StopIteration then Inr [] else Inl e, self')
      | (Inr row, self') \<Rightarrow>
          (case collect self' of
             (Inl e, self'') \<Rightarrow> (Inl e, self'')
           | (Inr rows, self'') \<Rightarrow> (Inr (row # rows), self'')))"
  by pat_completeness auto
termination
  by (relation "measure (\<lambda>self. case index self of
                                    None \<Rightarrow> 0
                                  | Some i \<Rightarrow> Suc (length (cumulative_length self)) - i)")
     (auto simp add: next_row_def Let_def split: option.splits if_splits)

declare collect.simps [simp del]

definition to_list :: "'a VectorOfVectors \<Rightarrow> (error + 'a list list) \<times> 'a VectorOfVectors" where
  "to_list self = collect (iter self)"

text \<open>
  Writing the rows \<open>rows\<close> at the indices \<open>i, i + 1, \<dots>\<close> in order, stopping at the
  first call that raises or does not return.
\<close>

fun set_rows ::
  "bool \<Rightarrow> ('b \<Rightarrow> error + 'a) \<Rightarrow> nat \<Rightarrow> 'b list list \<Rightarrow> 'a::zero VectorOfVectors \<Rightarrow>
   ((error + unit) \<times> 'a VectorOfVectors) option" where
  "set_rows nep50 cast i [] self = Some (Inr (), self)"
| "set_rows nep50 cast i (r # rs) self =
     (case set_vector nep50 cast (int i) (vec r) self of
        None \<Rightarrow> None
      | Some (Inl e, self') \<Rightarrow> Some (Inl e, self')
      | Some (Inr u, self') \<Rightarrow> set_rows nep50 cast (Suc i) rs self')"

text \<open>
  The row \<open>j\<close> of a store: the slice of the flattened data from the cumulative length
  \<open>j - 1\<close> (from 0 for the first row) to the cumulative length \<open>j\<close>.
\<close>

definition row_start :: "'a VectorOfVectors \<Rightarrow> nat \<Rightarrow> nat" where
  "row_start self j = (if j = 0 then 0 else unat (cumulative_length self ! (j - 1)))"

definition row_at :: "'a VectorOfVectors \<Rightarrow> nat \<Rightarrow> 'a list" where
  "row_at self j =
     slice (flattened_data self) (row_start self j) (unat (cumulative_length self ! j))"

section \<open>The stream engine (\<open>data_streamer.py\<close>)\<close>

text \<open>
  Python does not accept \<open>data_streamer.py\<close> as it stands: the colon is missing after
  three conditions, and the keyword argument of \<open>format\<close> is written
  \<open>'name'=dec_key\<close>.  The definitions below follow the statements in their order,
  reading each condition with its colon and the keyword argument as \<open>name=dec_key\<close>.
  Nothing else is repaired: a name that is not bound raises \<open>NameError\<close> where it is
  evaluated, and an attribute that an object does not have raises \<open>AttributeError\<close>.
\<close>

subsection \<open>Strings\<close>

text \<open>\<open>str.endswith\<close> and \<open>str.removesuffix\<close>.\<close>

definition endswith :: "string \<Rightarrow> string \<Rightarrow> bool" where
  "endswith s suffix =
     (length suffix \<le> length s \<and> drop (length s - length suffix) s = suffix)"

definition removesuffix :: "string \<Rightarrow> string \<Rightarrow> string" where
  "removesuffix s suffix =
     (if suffix = [] then s
      else if endswith s suffix then take (length s - length suffix) s
      else s)"

text \<open>
  \<open>template.format(name=v)\<close>.  \<open>{{\<close> and \<open>}}\<close> stand for a brace; the field
  \<open>{name}\<close> is replaced by \<open>v\<close>; a field with another name raises \<open>KeyError\<close>, an
  empty or numbered field \<open>IndexError\<close> (there is no positional argument), a brace
  without its partner \<open>ValueError\<close>.  Fields with a conversion, a format specification,
  an attribute or an index are not modelled.  The first field that fails decides.
\<close>

definition format_field :: "string \<Rightarrow> string \<Rightarrow> error + string" where
  "format_field field v =
     (if field = ''name'' then Inr v
      else if list_ex (\<lambda>c. c \<in> set ''.[!:{'') field then Inl Unmodelled
      else if list_all (\<lambda>c. c \<in> set ''0123456789'') field then Inl IndexError
      else Inl KeyError)"

function format_str :: "string \<Rightarrow> string \<Rightarrow> error + string" where
  "format_str [] v = Inr []"
| "format_str (c # cs) v =
     (if c = CHR ''{'' then
        (case cs of
           [] \<Rightarrow> Inl ValueError
         | d # ds \<Rightarrow>
             if d = CHR ''{'' then
               (case format_str ds v of Inl e \<Rightarrow> Inl e | Inr r \<Rightarrow> Inr (CHR ''{'' # r))
             else
               (case dropWhile (\<lambda>x. x \<noteq> CHR ''}'') cs of
                  [] \<Rightarrow> Inl ValueError
                | b # rest \<Rightarrow>
                    (case format_field (takeWhile (\<lambda>x. x \<noteq> CHR ''}'') cs) v of
                       Inl e \<Rightarrow> Inl e
                     | Inr s \<Rightarrow>
                         (case format_str rest v of Inl e \<Rightarrow> Inl e | Inr r \<Rightarrow> Inr (s @ r)))))
      else if c = CHR ''}'' then
        (case cs of
           [] \<Rightarrow> Inl ValueError
         | d # ds \<Rightarrow>
             if d = CHR ''}'' then
               (case format_str ds v of Inl e \<Rightarrow> Inl e | Inr r \<Rightarrow> Inr (CHR ''}'' # r))
             else Inl ValueError)
      else (case format_str cs v of Inl e \<Rightarrow> Inl e | Inr r \<Rightarrow> Inr (c # r)))"
  by pat_completeness auto
termination
proof (relation "measure (\<lambda>(t, v). length t)", goal_cases)
  case 1
  show ?case by simp
next
  case (2 c cs v d ds)
  then show ?case by simp
next
  case (3 c cs v d ds b rest s)
  have "length (dropWhile (\<lambda>x. x \<noteq> CHR ''}'') cs) \<le> length cs"
    by (rule length_dropWhile_le)
  with 3 show ?case by simp
next
  case (4 c cs v d ds)
  then show ?case by simp
next
  case (5 c cs v)
  then show ?case by simp
qed


subsection \<open>Decoders and raw buffers\<close>

text \<open>
  A decoder object is known by the name of its class, \<open>type(decoder).__name__\<close>.  The
  \<open>out_name\<close> of a raw buffer is a string, or whatever object the caller passes.
  The backing store \<open>lgdo\<close> of a buffer matters here through its length only:
  \<open>lgdo_len\<close> is \<open>None\<close> when the buffer has no store yet or its store has no
  \<open>__len__\<close>.  A buffer library is a dictionary from decoder names to buffer lists,
  kept in insertion order.
\<close>

datatype decoder = Decoder (class_name: string)

datatype name_val = Str string | Obj decoder

record RawBuffer =
  out_stream :: string
  out_name :: name_val
  loc :: nat
  lgdo_len :: "nat option"

type_synonym RawBufferList = "RawBuffer list"

type_synonym RawBufferLibrary = "(string \<times> RawBufferList) list"

text \<open>
  Modelled from the spec: the constructor \<open>RawBuffer(out_stream=\<dots>, out_name=\<dots>)\<close> of
  \<open>raw_buffer\<close>, which is not part of the sources at hand.  A binding has an output
  destination, a name and a fill cursor \<open>loc\<close>, the count of rows written since the last
  reset: a new binding has written none and has no backing store yet.
\<close>

definition RawBuffer_new :: "string \<Rightarrow> name_val \<Rightarrow> RawBuffer" where
  "RawBuffer_new out_stream_arg out_name_arg =
     \<lparr>out_stream = out_stream_arg, out_name = out_name_arg, loc = 0, lgdo_len = None\<rparr>"

text \<open>
  Modelled from the spec: \<open>RawBufferList.make_lgdos(decoder, size=\<dots>)\<close> of \<open>raw_buffer\<close>,
  which is not part of the sources at hand.  The spec says that \<open>open\<close> allocates the
  backing stores sized by the buffer size hint: every binding of the list gets a store
  of that length.
\<close>

definition make_lgdos :: "decoder \<Rightarrow> nat \<Rightarrow> RawBufferList \<Rightarrow> RawBufferList" where
  "make_lgdos decoder size_arg rb_list = map (\<lambda>rb. rb\<lparr>lgdo_len := Some size_arg\<rparr>) rb_list"

subsection \<open>The class \<open>DataStreamer\<close>\<close>

text \<open>
  The fields that \<open>__init__\<close> sets, and \<open>source\<close> for what a derived class adds (the
  byte source and its position).  The methods that a derived class must define are
  parameters: \<open>decoders\<close> is what \<open>get_decoder_list()\<close> returns, and \<open>read_packet\<close>
  takes the engine to whether data remains and the engine after the packet.
\<close>

record 's DataStreamer =
  rb_lib :: "RawBufferLibrary option"
  chunk_mode :: "string option"
  n_bytes_read :: nat
  any_full :: bool
  source :: 's

definition DataStreamer_init :: "'s \<Rightarrow> 's DataStreamer" where
  "DataStreamer_init src =
     \<lparr>rb_lib = None, chunk_mode = None, n_bytes_read = 0, any_full = False, source = src\<rparr>"

text \<open>
  The module imports \<open>RawBufferLibrary\<close> and nothing else from \<open>raw_buffer\<close>, so the
  names \<open>RawBuffer\<close> and \<open>RawBufferList\<close> are not bound, and the statements that use
  them raise \<open>NameError\<close>.  The parameter \<open>raw_buffer_bound\<close> says whether the two
  names are bound: \<open>False\<close> is the module as it is written, \<open>True\<close> is the module
  with the two names imported as well.
\<close>

text \<open>
  \<open>build_default_rb_lib\<close>.  With decoders the library is built and then the function
  ends without a \<open>return\<close>: its value is \<open>None\<close>.
\<close>

definition build_default_rb_lib ::
  "bool \<Rightarrow> decoder list \<Rightarrow> string \<Rightarrow> error + RawBufferLibrary option" where
  "build_default_rb_lib raw_buffer_bound decoders out_stream_arg =
     (if length decoders = 0 then Inr (Some [])
      else if \<not> raw_buffer_bound then Inl NameError
      else
        (let built = fold (\<lambda>decoder lib.
                       AList.update (class_name decoder)
                         [RawBuffer_new out_stream_arg (Str (class_name decoder))] lib)
                     decoders []
         in Inr None))"

text \<open>
  The wildcard branch of \<open>open_stream\<close>, for a decoder whose name is not in the library
  while \<open>'*'\<close> is.  The value of \<open>dec_key.removesuffix('Decoder')\<close> is dropped (a
  Python string is not changed in place), so \<open>dec_key\<close> stays the decoder name; the
  formatted \<open>out_name\<close> is not used, the buffer gets the decoder object as its name.
\<close>

definition setup_wildcard ::
  "bool \<Rightarrow> decoder \<Rightarrow> RawBufferLibrary \<Rightarrow> error + RawBufferLibrary" where
  "setup_wildcard raw_buffer_bound decoder lib =
     (let dec_name = class_name decoder;
          dec_key = dec_name;
          dropped = (if endswith dec_key ''Decoder'' then removesuffix dec_key ''Decoder''
                     else dec_key)
      in case map_of lib ''*'' of
           None \<Rightarrow> Inl KeyError
         | Some [] \<Rightarrow> Inl IndexError
         | Some (t # ts) \<Rightarrow>
             (case out_name t of
                Obj d \<Rightarrow> Inl AttributeError
              | Str template \<Rightarrow>
                  (case format_str template dec_key of
                     Inl e \<Rightarrow> Inl e
                   | Inr new_out_name \<Rightarrow>
                       (case format_str (out_stream t) dec_key of
                          Inl e \<Rightarrow> Inl e
                        | Inr new_out_stream \<Rightarrow>
                            if \<not> raw_buffer_bound then Inl NameError
                            else
                              (let rb = RawBuffer_new new_out_stream (Obj decoder)
                               in Inr (AList.update dec_name [rb] lib))))))"

text \<open>
  The loop of \<open>open_stream\<close> over the decoders: a decoder that is neither in the library
  nor covered by \<open>'*'\<close> is passed over; every other one has its name stored and its
  buffers given their stores.
\<close>

fun init_buffers ::
  "bool \<Rightarrow> nat \<Rightarrow> decoder list \<Rightarrow> RawBufferLibrary \<Rightarrow> string list \<Rightarrow>
   error + (RawBufferLibrary \<times> string list)" where
  "init_buffers raw_buffer_bound buffer_size [] lib dec_names = Inr (lib, dec_names)"
| "init_buffers raw_buffer_bound buffer_size (decoder # decoders) lib dec_names =
     (let dec_name = class_name decoder in
      if map_of lib dec_name = None then
        (if map_of lib ''*'' = None
         then init_buffers raw_buffer_bound buffer_size decoders lib dec_names
         else
           (case setup_wildcard raw_buffer_bound decoder lib of
              Inl e \<Rightarrow> Inl e
            | Inr lib' \<Rightarrow>
                init_buffers raw_buffer_bound buffer_size decoders
                  (AList.map_entry dec_name (make_lgdos decoder buffer_size) lib')
                  (dec_names @ [dec_name])))
      else
        init_buffers raw_buffer_bound buffer_size decoders
          (AList.map_entry dec_name (make_lgdos decoder buffer_size) lib)
          (dec_names @ [dec_name]))"

text \<open>
  \<open>open_stream\<close>.  It returns nothing; the model returns the warnings it prints and the
  engine.  Without a library, \<open>'in'\<close> on \<open>None\<close> raises \<open>TypeError\<close> at the first
  decoder, and \<open>None.keys()\<close> raises \<open>AttributeError\<close> when there is no decoder.
\<close>

definition open_stream ::
  "bool \<Rightarrow> decoder list \<Rightarrow> string \<Rightarrow> RawBufferLibrary option \<Rightarrow> nat \<Rightarrow> string \<Rightarrow> string \<Rightarrow>
   's DataStreamer \<Rightarrow> error + (string list \<times> 's DataStreamer)" where
  "open_stream raw_buffer_bound decoders stream_name rb_lib_arg buffer_size chunk_mode_arg
     out_stream_arg self =
     (case (case rb_lib_arg of
              None \<Rightarrow> build_default_rb_lib raw_buffer_bound decoders out_stream_arg
            | Some lib \<Rightarrow> Inr (Some lib)) of
        Inl e \<Rightarrow> Inl e
      | Inr None \<Rightarrow> (if decoders = [] then Inl AttributeError else Inl TypeError)
      | Inr (Some lib) \<Rightarrow>
          (case init_buffers raw_buffer_bound buffer_size decoders lib [] of
             Inl e \<Rightarrow> Inl e
           | Inr (lib', dec_names) \<Rightarrow>
               Inr (map (\<lambda>dec_name. ''Warning: no decoder named '' @ dec_name @
                                     '' requested by rb_lib'')
                      (filter (\<lambda>dec_name. dec_name \<notin> set dec_names) (map fst lib')),
                    self\<lparr>chunk_mode := Some chunk_mode_arg, rb_lib := Some lib'\<rparr>)))"

text \<open>
  The packet loop of \<open>read_chunk\<close>, from \<open>n_packets\<close> packets read so far.  It returns
  the count of packets and the engine as the last \<open>read_packet\<close> left it.
\<close>

function read_loop ::
  "('s DataStreamer \<Rightarrow> bool \<times> 's DataStreamer) \<Rightarrow> bool \<Rightarrow> int \<Rightarrow> int \<Rightarrow> 's DataStreamer \<Rightarrow>
   int \<times> 's DataStreamer" where
  "read_loop read_packet read_one_packet rp_max n_packets self =
     (case read_packet self of
        (still_has_data, self') \<Rightarrow>
          if \<not> still_has_data then (n_packets, self')
          else if read_one_packet \<or> n_packets + 1 > rp_max then (n_packets + 1, self')
          else if any_full self' then (n_packets + 1, self')
          else read_loop read_packet read_one_packet rp_max (n_packets + 1) self')"
  by pat_completeness auto
termination
  by (relation "measure (\<lambda>(read_packet, read_one_packet, rp_max, n_packets, self).
                           nat (rp_max - n_packets))")
     auto

declare read_loop.simps [simp del]

text \<open>
  The loop of \<open>read_chunk\<close> that fills \<open>list_of_rbs\<close>.  It runs over
  \<open>self.rb_lib.items()\<close>, whose members are pairs of a decoder name and a buffer list,
  and the inner loop runs over the two members of a pair, the name first.  The test on
  it reads \<open>rb.loc\<close>, or \<open>rb.lgod\<close> when \<open>only_full\<close> holds, and a string has
  neither: the first pair raises \<open>AttributeError\<close>.  The list is returned, empty, for
  the empty library only.
\<close>

fun list_of_rbs :: "bool \<Rightarrow> RawBufferLibrary \<Rightarrow> error + RawBuffer list" where
  "list_of_rbs only_full [] = Inr []"
| "list_of_rbs only_full ((dec_name, rb_list) # items) = Inl AttributeError"

text \<open>
  \<open>read_chunk\<close>.  Its value is what the \<open>return\<close> statement returns, together with the
  engine after the call. \<open>None.items()\<close> raises \<open>AttributeError\<close>.
\<close>

definition read_chunk ::
  "('s DataStreamer \<Rightarrow> bool \<times> 's DataStreamer) \<Rightarrow> string option \<Rightarrow> int \<Rightarrow> 's DataStreamer \<Rightarrow>
   (error + RawBuffer list) \<times> 's DataStreamer" where
  "read_chunk read_packet chunk_mode_override rp_max self =
     (let mode = (case chunk_mode_override of
                    None \<Rightarrow> chunk_mode self
                  | Some m \<Rightarrow> Some m);
          read_one_packet = (mode = Some ''single_packet'');
          only_full = (mode = Some ''only_full'')
      in case read_loop read_packet read_one_packet rp_max 0 self of
           (n_packets, self') \<Rightarrow>
             (case rb_lib self' of
                None \<Rightarrow> (Inl AttributeError, self')
              | Some lib \<Rightarrow> (list_of_rbs only_full lib, self')))"

subsection \<open>The run of \<open>read_packet\<close> calls\<close>

text \<open>
  \<open>state_after rp k s\<close> is the engine after \<open>k\<close> calls of \<open>read_packet\<close> from \<open>s\<close>, and
  \<open>has_data rp k s\<close> is what call number \<open>k\<close> (counting from 1) returns.
\<close>

fun state_after ::
  "('s DataStreamer \<Rightarrow> bool \<times> 's DataStreamer) \<Rightarrow> nat \<Rightarrow> 's DataStreamer \<Rightarrow> 's DataStreamer" where
  "state_after rp 0 s = s"
| "state_after rp (Suc k) s = snd (rp (state_after rp k s))"

definition has_data ::
  "('s DataStreamer \<Rightarrow> bool \<times> 's DataStreamer) \<Rightarrow> nat \<Rightarrow> 's DataStreamer \<Rightarrow> bool" where
  "has_data rp k s = fst (rp (state_after rp (k - 1) s))"

text \<open>
  The stopping rule in the words of the specification, after call number \<open>k\<close> with
  override policy \<open>P\<close>: no data remains; \<open>P\<close> is \<open>single_packet\<close> and one packet has
  been read; \<open>rp_max\<close> packets have been read; or \<open>P\<close> is \<open>any_full\<close> and the flag is
  set.
\<close>

definition spec_stop ::
  "('s DataStreamer \<Rightarrow> bool \<times> 's DataStreamer) \<Rightarrow> string option \<Rightarrow> int \<Rightarrow> nat \<Rightarrow> 's DataStreamer \<Rightarrow> bool" where
  "spec_stop rp P rp_max k s =
     (if has_data rp k s
      then (P = Some ''single_packet'' \<and> k = 1)
           \<or> int k = rp_max
           \<or> (P = Some ''any_full'' \<and> any_full (state_after rp k s))
      else True)"

text \<open>
  The stopping rule without the packet cap: after call number \<open>k\<close> no data remains, or
  the mode in force is \<open>single_packet\<close>, or the flag is set.  The mode in force is the
  override, or the mode of the engine when there is no override.
\<close>

definition mode_in_force :: "string option \<Rightarrow> 's DataStreamer \<Rightarrow> string option" where
  "mode_in_force chunk_mode_override self =
     (case chunk_mode_override of None \<Rightarrow> chunk_mode self | Some m \<Rightarrow> Some m)"

definition stop_after ::
  "('s DataStreamer \<Rightarrow> bool \<times> 's DataStreamer) \<Rightarrow> string option \<Rightarrow> nat \<Rightarrow> 's DataStreamer \<Rightarrow> bool" where
  "stop_after rp mode k s =
     (if has_data rp k s
      then mode = Some ''single_packet'' \<or> any_full (state_after rp k s)
      else True)"

subsection \<open>A stream for the examples\<close>

text \<open>
  A derived class whose source is a list of packets, each with its size in bytes and
  whether some buffer is full after it: \<open>read_packet\<close> takes the next packet, adds its
  size to \<open>n_bytes_read\<close> and sets \<open>any_full\<close>, and reports no data on the empty list.
\<close>

definition list_read_packet ::
  "(nat \<times> bool) list DataStreamer \<Rightarrow> bool \<times> (nat \<times> bool) list DataStreamer" where
  "list_read_packet self =
     (case source self of
        [] \<Rightarrow> (False, self)
      | (n_bytes, full) # rest \<Rightarrow>
          (True, self\<lparr>n_bytes_read := n_bytes_read self + n_bytes, any_full := full,
                      source := rest\<rparr>))"

section \<open>Properties of the packet helpers\<close>

lemma short_iff_bit31: "drop_bit 31 (w :: 32 word) \<noteq> 0 \<longleftrightarrow> bit w 31"
proof
  assume "drop_bit 31 w \<noteq> 0"
  then obtain n where n: "bit (drop_bit 31 w) n" by (auto simp add: bit_eq_iff)
  then have "bit w (31 + n)" by (simp add: bit_simps add.commute)
  moreover from this have "31 + n < 32" using bit_imp_le_length[of w "31+n"] by simp
  ultimately show "bit w 31" by (cases n) auto
next
  assume "bit w 31"
  then have "bit (drop_bit 31 w) 0" by (simp add: bit_simps)
  then show "drop_bit 31 w \<noteq> 0" by auto
qed

lemma mask_short: "(0xFC000000 :: 32 word) = push_bit 26 (mask 6)"
  by (simp add: mask_eq_exp_minus_1)

lemma mask_long: "(0xFFFC0000 :: 32 word) = push_bit 18 (mask 14)"
  by (simp add: mask_eq_exp_minus_1)

lemma and_shifted_mask:
  "(w :: 32 word) AND push_bit lo (mask n) = bit_field_in_place lo n w"
  unfolding bit_field_in_place_def
proof (rule bit_word_eqI)
  fix k assume "k < LENGTH(32)"
  have "bit w k \<Longrightarrow> k < 32" using bit_imp_le_length[of w k] by simp
  then show "bit (w AND push_bit lo (mask n)) k = bit (push_bit lo (take_bit n (drop_bit lo w))) k"
    by (auto simp add: bit_simps)
qed

lemma drop_and_shifted_mask:
  "drop_bit lo ((w :: 32 word) AND push_bit lo (mask n)) = bit_field lo n w"
  unfolding bit_field_def
proof (rule bit_word_eqI)
  fix k assume k: "k < LENGTH(32)"
  have le: "\<And>j. bit w j \<Longrightarrow> j < 32" using bit_imp_le_length[of w] by simp
  show "bit (drop_bit lo (w AND push_bit lo (mask n))) k = bit (take_bit n (drop_bit lo w)) k"
    using k by (auto simp add: bit_simps dest: le)
qed

lemma short_id_shifted: "drop_bit 26 ((w :: 32 word) AND 0xFC000000) = bit_field 26 6 w"
  unfolding mask_short by (rule drop_and_shifted_mask)

lemma long_id_shifted: "drop_bit 18 ((w :: 32 word) AND 0xFFFC0000) = bit_field 18 14 w"
  unfolding mask_long by (rule drop_and_shifted_mask)

lemma long_id_in_place: "(w :: 32 word) AND 0xFFFC0000 = bit_field_in_place 18 14 w"
  unfolding mask_long by (rule and_shifted_mask)

text \<open>
  C5.  A packet whose first word has bit 31 set is short, has one word, and its data id
  with \<open>shift=True\<close> is the 6-bit field in bits 26 to 31 of the first word, whatever
  words follow.
\<close>

theorem short_packet_header:
  assumes "bit w 31"
  shows "is_short (w # payload) = Inr True
       \<and> get_n_words (w # payload) = Inr 1
       \<and> get_data_id (w # payload) True = Inr (bit_field 26 6 w)"
proof -
  have s: "is_short (w # payload) = Inr True"
    using assms by (simp add: is_short_def short_iff_bit31)
  have "get_n_words (w # payload) = Inr 1"
    by (simp add: get_n_words_def s)
  moreover have "get_data_id (w # payload) True = Inr (bit_field 26 6 w)"
    unfolding get_data_id_def s
    by (simp only: short_id_shifted first_word.simps sum.case bool.case if_True)
  ultimately show ?thesis using s by simp
qed

text \<open>The first word \<open>0x84000007\<close> has bit 31 set and the field 33 in bits 26 to 31.\<close>

theorem short_packet_header_witness:
  "bit (0x84000007 :: 32 word) 31
   \<and> is_short [0x84000007, 5, 6] = Inr True
   \<and> get_n_words [0x84000007, 5, 6] = Inr 1
   \<and> get_data_id [0x84000007, 5, 6] True = Inr 33"
  using short_packet_header [of "0x84000007" "[5, 6]"] by (simp add: bit_field_def)

text \<open>
  C4, as the code has it.  For a long packet (bit 31 of the first word clear) the data
  id with \<open>shift=True\<close> is the 14-bit field in bits 18 to 31 of the first word, shifted
  down to bit 0, and with \<open>shift=False\<close> it is the same bits in place, every other bit
  cleared.
\<close>

theorem long_packet_data_id:
  assumes "\<not> bit w 31"
  shows "get_data_id (w # payload) True = Inr (bit_field 18 14 w)
       \<and> get_data_id (w # payload) False = Inr (bit_field_in_place 18 14 w)"
proof -
  have s: "is_short (w # payload) = Inr False"
    using assms by (simp add: is_short_def short_iff_bit31)
  have "get_data_id (w # payload) True = Inr (bit_field 18 14 w)"
    unfolding get_data_id_def s
    by (simp only: long_id_shifted first_word.simps sum.case bool.case if_True)
  moreover have "get_data_id (w # payload) False = Inr (bit_field_in_place 18 14 w)"
    unfolding get_data_id_def s
    by (simp only: long_id_in_place first_word.simps sum.case bool.case if_False)
  ultimately show ?thesis by simp
qed

theorem long_packet_data_id_witness:
  "\<not> bit (0x01040005 :: 32 word) 31
   \<and> get_data_id [0x01040005, 7] True = Inr 65
   \<and> get_data_id [0x01040005, 7] False = Inr 0x01040000"
  using long_packet_data_id [of "0x01040005" "[7]"]
  by (simp add: bit_field_def bit_field_in_place_def)

text \<open>
  C4 as the specification words it fails on the long packet with the single word
  \<open>0x01000000\<close>: bits 18 to 23 are all clear, and the data id is 64 shifted and
  \<open>0x01000000\<close> in place.
\<close>

theorem long_packet_six_bits_counterexample:
  "is_short [0x01000000] = Inr False
   \<and> bit_field 18 6 0x01000000 = 0
   \<and> get_data_id [0x01000000] True = Inr 64
   \<and> bit_field_in_place 18 6 0x01000000 = 0
   \<and> get_data_id [0x01000000] False = Inr 0x01000000"
  by (simp add: is_short_def get_data_id_def bit_field_def bit_field_in_place_def)

section \<open>Properties of the ragged store\<close>

subsection \<open>The doubling loop\<close>

text \<open>
  A doubling of an array that nothing else refers to appends as many zeros as there are
  elements and keeps the elements.
\<close>

lemma nda_resize_double: "nda_resize (2 * length xs) 0 xs = Inr (xs @ replicate (length xs) 0)"
  by (cases xs) (simp_all add: nda_resize_def)

text \<open>
  When the loop ends without an exception there is room for more than \<open>stop\<close>
  elements; when it ends with one, the exception is the \<open>ValueError\<close> of a resize of
  a referenced array, and the array is as it was.
\<close>

lemma grow_flattened_result:
  "grow_flattened refs stop xs = Some (None, ys) \<Longrightarrow> stop < length ys"
proof -
  have "grow_flattened refs stop xs = Some r \<Longrightarrow> fst r = None \<longrightarrow> stop < length (snd r)" for r
    by (rule grow_flattened.raw_induct
          [where P = "\<lambda>refs stop xs r. fst r = None \<longrightarrow> stop < length (snd r)"])
       (auto split: if_splits sum.splits)
  then show "grow_flattened refs stop xs = Some (None, ys) \<Longrightarrow> stop < length ys" by fastforce
qed

lemma grow_flattened_error:
  assumes "grow_flattened refs stop xs = Some (Some e, ys)"
  shows "e = ValueError \<and> ys = xs \<and> refs > 0"
proof -
  have "grow_flattened refs stop xs = Some r \<Longrightarrow>
        (\<forall>e. fst r = Some e \<longrightarrow> e = ValueError \<and> snd r = xs \<and> refs > 0)" for r
  proof (rule grow_flattened.raw_induct
          [where P = "\<lambda>refs stop xs r. \<forall>e. fst r = Some e \<longrightarrow> e = ValueError \<and> snd r = xs \<and> refs > 0"])
    fix f :: "nat \<Rightarrow> nat \<Rightarrow> 'a list \<Rightarrow> (error option \<times> 'a list) option"
      and refs stop xs r
    assume ih: "\<And>refs stop xs r. f refs stop xs = Some r \<Longrightarrow>
                 \<forall>e. fst r = Some e \<longrightarrow> e = ValueError \<and> snd r = xs \<and> refs > 0"
      and step: "(if length xs \<le> stop
                  then case nda_resize (2 * length xs) refs xs of
                         Inl e \<Rightarrow> Some (Some e, xs)
                       | Inr ys \<Rightarrow> f refs stop ys
                  else Some (None, xs)) = Some r"
    show "\<forall>e. fst r = Some e \<longrightarrow> e = ValueError \<and> snd r = xs \<and> refs > 0"
    proof (intro allI impI)
      fix e assume e: "fst r = Some e"
      show "e = ValueError \<and> snd r = xs \<and> refs > 0"
      proof (cases "nda_resize (2 * length xs) refs xs")
        case (Inl e')
        with step e show ?thesis
          by (auto simp add: nda_resize_def split: if_splits)
      next
        case (Inr ys)
        with step e have "f refs stop ys = Some r" by (auto split: if_splits)
        with ih e have *: "e = ValueError" "snd r = ys" "refs > 0" by blast+
        with Inr have "ys = xs" by (auto simp add: nda_resize_def split: if_splits)
        with * show ?thesis by simp
      qed
    qed
  qed
  with assms show ?thesis by fastforce
qed

lemma grow_flattened_nonempty:
  "grow_flattened refs stop xs = Some r \<Longrightarrow> xs \<noteq> []"
proof (rule grow_flattened.raw_induct [where P = "\<lambda>refs stop xs r. xs \<noteq> []"])
  fix f :: "nat \<Rightarrow> nat \<Rightarrow> 'a list \<Rightarrow> (error option \<times> 'a list) option"
    and refs stop xs r
  assume ih: "\<And>refs stop xs r. f refs stop xs = Some r \<Longrightarrow> xs \<noteq> []"
    and step: "(if length xs \<le> stop
                then case nda_resize (2 * length xs) refs xs of
                       Inl e \<Rightarrow> Some (Some e, xs)
                     | Inr ys \<Rightarrow> f refs stop ys
                else Some (None, xs)) = Some r"
  show "xs \<noteq> []"
  proof
    assume "xs = []"
    with step have "f refs stop [] = Some r" by (simp add: nda_resize_def)
    with ih show False by blast
  qed
qed

text \<open>
  With no capacity at all the loop never ends: twice nothing is nothing, and a resize
  to the same length raises nothing.
\<close>

lemma grow_flattened_empty: "grow_flattened refs stop ([] :: 'a::zero list) = None"
  using grow_flattened_nonempty [of refs stop "[]"]
  by (cases "grow_flattened refs stop ([] :: 'a list)") auto

text \<open>
  With some capacity and no other reference the loop ends: it appends zeros to what is
  stored, and leaves room for more than \<open>stop\<close> elements.
\<close>

lemma grow_flattened_Some:
  assumes "xs \<noteq> []"
  shows "\<exists>k. grow_flattened 0 stop xs = Some (None, xs @ replicate k 0) \<and> stop < length xs + k"
  using assms
proof (induction "Suc stop - length xs" arbitrary: xs rule: less_induct)
  case less
  show ?case
  proof (cases "stop < length xs")
    case True
    then have "grow_flattened 0 stop xs = Some (None, xs @ replicate 0 0)"
      by (subst grow_flattened.simps) simp
    with True show ?thesis by (intro exI [of _ 0]) simp
  next
    case False
    let ?ys = "xs @ replicate (length xs) 0"
    from less.prems have pos: "Suc 0 \<le> length xs" by (cases xs) simp_all
    with False have "Suc stop - (length xs + length xs) < Suc stop - length xs" by linarith
    then have "Suc stop - length ?ys < Suc stop - length xs" by simp
    moreover have "?ys \<noteq> []" using less.prems by simp
    ultimately obtain k where k: "grow_flattened 0 stop ?ys = Some (None, ?ys @ replicate k 0)"
      "stop < length ?ys + k"
      using less.hyps [of ?ys] by blast
    from False have "grow_flattened 0 stop xs = grow_flattened 0 stop ?ys"
      by (subst grow_flattened.simps) (simp add: nda_resize_double)
    with k have "grow_flattened 0 stop xs = Some (None, xs @ replicate (length xs + k) 0)"
      by (simp add: replicate_add)
    moreover from k have "stop < length xs + (length xs + k)" by simp
    ultimately show ?thesis by blast
  qed
qed

text \<open>
  With some capacity and another reference the first doubling raises.
\<close>

lemma grow_flattened_referenced:
  assumes "refs > 0" "xs \<noteq> []" "length xs \<le> stop"
  shows "grow_flattened refs stop xs = Some (Some ValueError, xs)"
  using assms by (subst grow_flattened.simps) (simp add: nda_resize_def)

subsection \<open>The assignment to the slice\<close>

lemma cast_all_same:
  assumes "\<forall>x\<in>set vs. cast x = Inr x"
  shows "cast_all cast vs = (vs, None)"
  using assms by (induction vs) simp_all

lemma cast_all_ok:
  assumes "\<forall>x\<in>set vs. \<exists>y. cast x = Inr y"
  shows "\<exists>ys. cast_all cast vs = (ys, None) \<and> length ys = length vs"
  using assms by (induction vs) auto

lemma slice_assign_fits:
  assumes "start + length vals < length xs"
    and "cast_all cast vals = (ys, None)" and "length ys = length vals"
  shows "slice_assign xs start (start + length vals) cast vals
         = (None, take start xs @ ys @ drop (start + length vals) xs)"
  using assms by (simp add: slice_assign_def Let_def min_def max_def)

lemma len_nda_one_dim:
  assumes "length (shape nda) = 1" "wf_ndarray nda"
  shows "len_nda nda = Inr (length (flat nda))"
  using assms by (cases "shape nda") (auto simp add: wf_ndarray_def)

lemma unat_of_nat_32: "n < 2 ^ 32 \<Longrightarrow> unat (of_nat n :: 32 word) = n"
  by (simp add: unat_of_nat)

subsection \<open>Errors of \<open>set_vector\<close>\<close>

lemma set_vector_bad:
  assumes "i_vec < 0 \<or> int (length (cumulative_length self)) \<le> i_vec \<or> length (shape nda) \<noteq> 1"
  shows "set_vector nep50 cast i_vec nda self = Some (Inl ValueError, self)"
  using assms by (auto simp add: set_vector_def)


text \<open>
  For a valid index, a well-formed one-dimensional row and an end offset below
  \<open>2 ^ 32\<close>, both versions of NumPy compute the same offsets, and the call is the
  loop followed by the assignment.
\<close>

lemma set_vector_valid:
  assumes i: "i < length (cumulative_length self)"
    and one: "length (shape nda) = 1" and wf: "wf_ndarray nda"
    and fit: "row_start self i + length (flat nda) < 2 ^ 32"
  shows "set_vector nep50 cast (int i) nda self
         = (case grow_flattened (flattened_refs self) (row_start self i + length (flat nda))
                  (flattened_data self) of
              None \<Rightarrow> None
            | Some (Some e, fd) \<Rightarrow> Some (Inl e, self\<lparr>flattened_data := fd\<rparr>)
            | Some (None, fd) \<Rightarrow>
                (case slice_assign fd (row_start self i) (row_start self i + length (flat nda))
                        cast (flat nda) of
                   (Some e, fd') \<Rightarrow> Some (Inl e, self\<lparr>flattened_data := fd'\<rparr>)
                 | (None, fd') \<Rightarrow>
                     Some (Inr (),
                       self\<lparr>flattened_data := fd',
                         cumulative_length :=
                           (cumulative_length self)
                             [i := of_nat (row_start self i + length (flat nda))]\<rparr>)))"
proof -
  let ?n = "length (flat nda)"
  let ?start = "row_start self i"
  have ok: "\<not> (int i < 0 \<or> int i > int (length (cumulative_length self)) - 1)"
    using i by simp
  have sh: "length (shape nda) \<noteq> 1 \<longleftrightarrow> False" using one by simp
  have ln: "len_nda nda = Inr ?n" using one wf by (rule len_nda_one_dim)
  have st: "(if int i = 0 then 0 else unat (cumulative_length self ! nat (int i - 1))) = ?start"
    by (auto simp add: row_start_def nat_diff_distrib')
  have n32: "(nep50 \<and> int i \<noteq> 0 \<and> ?n \<ge> 2 ^ 32) \<longleftrightarrow> False"
    using fit by auto
  have stop: "(if nep50 \<and> int i \<noteq> 0 then (?start + ?n) mod 2 ^ 32 else ?start + ?n) = ?start + ?n"
    using fit by simp
  have last: "(nep50 \<and> ?start + ?n \<ge> 2 ^ 32) \<longleftrightarrow> False"
    using fit by auto
  show ?thesis
    unfolding set_vector_def
    by (simp only: ok sh ln st n32 stop last if_False Let_def sum.case nat_int)
qed

lemma set_vector_good:
  assumes "0 \<le> i_vec" "i_vec < int (length (cumulative_length self))"
    and "length (shape nda) = 1" "wf_ndarray nda"
    and "flattened_refs self = 0"
    and "\<forall>x\<in>set (flat nda). \<exists>y. cast x = Inr y"
    and "row_start self (nat i_vec) + length (flat nda) < 2 ^ 32"
  shows "set_vector nep50 cast i_vec nda self = None
       \<or> (\<exists>s. set_vector nep50 cast i_vec nda self = Some (Inr (), s))"
proof -
  define i where "i = nat i_vec"
  with assms(1) have iv: "i_vec = int i" by simp
  let ?start = "row_start self i"
  let ?stop = "?start + length (flat nda)"
  from assms(2) iv have i: "i < length (cumulative_length self)" by simp
  note sv = set_vector_valid [OF i assms(3,4) assms(7) [folded i_def], of nep50 cast]
  from cast_all_ok [OF assms(6)] obtain ys
    where ys: "cast_all cast (flat nda) = (ys, None)" "length ys = length (flat nda)"
    by blast
  show ?thesis
  proof (cases "grow_flattened (flattened_refs self) ?stop (flattened_data self)")
    case None
    with sv show ?thesis by (simp add: iv)
  next
    case (Some r)
    obtain err fd where r: "r = (err, fd)" by (cases r)
    show ?thesis
    proof (cases err)
      case None
      with Some r have "?stop < length fd" by (intro grow_flattened_result) simp
      then have "slice_assign fd ?start ?stop cast (flat nda)
                 = (None, take ?start fd @ ys @ drop ?stop fd)"
        using ys by (rule slice_assign_fits)
      with Some r None sv show ?thesis by (simp add: iv)
    next
      case (Some e)
      with \<open>grow_flattened (flattened_refs self) ?stop (flattened_data self) = Some r\<close> r
      have "flattened_refs self > 0" using grow_flattened_error by blast
      with assms(5) show ?thesis by simp
    qed
  qed
qed

text \<open>
  C6, as the code has it.  When \<open>i_vec\<close> is outside \<open>[0, rowCapacity)\<close> or \<open>nda\<close>
  is not one-dimensional, \<open>set_vector\<close> raises \<open>ValueError\<close> and leaves the store as
  it was.  When \<open>nda\<close> is a well-formed array, nothing else refers to the array of the
  flattened data, every element of \<open>nda\<close> can be converted to the element type of the
  store, and the end offset of the row is below \<open>2 ^ 32\<close>, it raises in these two cases
  only.
\<close>

theorem set_vector_errors:
  "((i_vec < 0 \<or> int (length (cumulative_length self)) \<le> i_vec \<or> length (shape nda) \<noteq> 1)
      \<longrightarrow> set_vector nep50 cast i_vec nda self = Some (Inl ValueError, self))
   \<and> (wf_ndarray nda \<and> flattened_refs self = 0
        \<and> (\<forall>x\<in>set (flat nda). \<exists>y. cast x = Inr y)
        \<and> row_start self (nat i_vec) + length (flat nda) < 2 ^ 32
      \<longrightarrow> ((\<exists>e s. set_vector nep50 cast i_vec nda self = Some (Inl e, s))
            \<longleftrightarrow> (i_vec < 0 \<or> int (length (cumulative_length self)) \<le> i_vec
                 \<or> length (shape nda) \<noteq> 1)))"
proof (intro conjI impI)
  assume "i_vec < 0 \<or> int (length (cumulative_length self)) \<le> i_vec \<or> length (shape nda) \<noteq> 1"
  then show "set_vector nep50 cast i_vec nda self = Some (Inl ValueError, self)"
    by (rule set_vector_bad)
next
  assume h: "wf_ndarray nda \<and> flattened_refs self = 0
        \<and> (\<forall>x\<in>set (flat nda). \<exists>y. cast x = Inr y)
        \<and> row_start self (nat i_vec) + length (flat nda) < 2 ^ 32"
  show "(\<exists>e s. set_vector nep50 cast i_vec nda self = Some (Inl e, s))
        \<longleftrightarrow> (i_vec < 0 \<or> int (length (cumulative_length self)) \<le> i_vec
             \<or> length (shape nda) \<noteq> 1)"
  proof (cases "i_vec < 0 \<or> int (length (cumulative_length self)) \<le> i_vec \<or> length (shape nda) \<noteq> 1")
    case True
    then have "set_vector nep50 cast i_vec nda self = Some (Inl ValueError, self)"
      by (rule set_vector_bad)
    with True show ?thesis by simp
  next
    case False
    with h have "set_vector nep50 cast i_vec nda self = None
       \<or> (\<exists>s. set_vector nep50 cast i_vec nda self = Some (Inr (), s))"
      by (intro set_vector_good) auto
    with False show ?thesis by auto
  qed
qed

text \<open>
  A store of two rows and a row of two elements: the index 2 is out of range, the
  call raises and the store is as it was; the index 1 is in range and the call does not
  raise.
\<close>

theorem set_vector_errors_witness:
  "set_vector False Inr 2 (vec [7, 8 :: int])
     \<lparr>flattened_data = [0, 0, 0, 0], cumulative_length = [0, 0],
      dtype = ''int64'', attrs = [], index = None, flattened_refs = 0\<rparr>
   = Some (Inl ValueError,
       \<lparr>flattened_data = [0, 0, 0, 0], cumulative_length = [0, 0],
        dtype = ''int64'', attrs = [], index = None, flattened_refs = 0\<rparr>)
   \<and> (\<nexists>e s. set_vector False Inr 1 (vec [7, 8 :: int])
               \<lparr>flattened_data = [0, 0, 0, 0], cumulative_length = [0, 0],
                dtype = ''int64'', attrs = [], index = None, flattened_refs = 0\<rparr>
               = Some (Inl e, s))"
proof -
  let ?st = "\<lparr>flattened_data = [0, 0, 0, 0 :: int], cumulative_length = [0, 0],
              dtype = ''int64'', attrs = [], index = None, flattened_refs = 0\<rparr>"
  have "set_vector False Inr 2 (vec [7, 8 :: int]) ?st = Some (Inl ValueError, ?st)"
    using set_vector_errors [of 2 ?st "vec [7, 8 :: int]" False Inr] by simp
  moreover have "\<nexists>e s. set_vector False Inr 1 (vec [7, 8 :: int]) ?st = Some (Inl e, s)"
    using set_vector_errors [of 1 ?st "vec [7, 8 :: int]" False Inr]
    by (simp add: wf_ndarray_def vec_def row_start_def)
  ultimately show ?thesis by simp
qed

text \<open>
  C6 as it is worded fails on a valid index and a one-dimensional row.  A row of three
  elements for a buffer of two elements that a view refers to: the first doubling raises
  \<open>ValueError\<close>, under either version of NumPy.  From NumPy 2 on, a row of three
  elements after a cumulative length of \<open>2 ^ 32 - 1\<close>: the end offset wraps to 2, the
  slice is empty, and the assignment raises \<open>ValueError\<close>.  And a row with an element
  that cannot be converted raises what the conversion raises.
\<close>

theorem set_vector_shared_buffer_counterexample:
  "length (shape (vec [1, 2, 3 :: int])) = 1
   \<and> set_vector False Inr 0 (vec [1, 2, 3 :: int])
       \<lparr>flattened_data = [0, 0], cumulative_length = [0, 0],
        dtype = ''int64'', attrs = [], index = None, flattened_refs = 1\<rparr>
     = Some (Inl ValueError,
         \<lparr>flattened_data = [0, 0], cumulative_length = [0, 0],
          dtype = ''int64'', attrs = [], index = None, flattened_refs = 1\<rparr>)
   \<and> set_vector True Inr 0 (vec [1, 2, 3 :: int])
       \<lparr>flattened_data = [0, 0], cumulative_length = [0, 0],
        dtype = ''int64'', attrs = [], index = None, flattened_refs = 1\<rparr>
     = Some (Inl ValueError,
         \<lparr>flattened_data = [0, 0], cumulative_length = [0, 0],
          dtype = ''int64'', attrs = [], index = None, flattened_refs = 1\<rparr>)
   \<and> set_vector True Inr 1 (vec [1, 2, 3 :: int])
       \<lparr>flattened_data = [0, 0, 0, 0], cumulative_length = [0xFFFFFFFF, 0],
        dtype = ''int64'', attrs = [], index = None, flattened_refs = 0\<rparr>
     = Some (Inl ValueError,
         \<lparr>flattened_data = [0, 0, 0, 0], cumulative_length = [0xFFFFFFFF, 0],
          dtype = ''int64'', attrs = [], index = None, flattened_refs = 0\<rparr>)
   \<and> map_option fst
         (set_vector False (\<lambda>x :: int. if x < 0 then Inl ValueError else Inr x) 0
            (vec [1, -2, 3])
            \<lparr>flattened_data = [0, 0, 0, 0], cumulative_length = [0, 0],
             dtype = ''uint8'', attrs = [], index = None, flattened_refs = 0\<rparr>)
     = Some (Inl ValueError)"
  by (simp add: set_vector_def vec_def grow_flattened.simps nda_resize_def slice_assign_def
        Let_def)

subsection \<open>Growth at an exact fit\<close>

lemma replicate_4: "replicate 4 x = [x, x, x, x]"
  by (simp add: numeral_eq_Suc)

text \<open>
  C7.  A store with room for four elements and one row, and a first row of four
  elements: \<open>end\<close> is 4, the capacity is 4, and the loop condition \<open>end >= len\<close> holds,
  so the capacity is doubled to 8 although the row fits exactly, under either version of
  NumPy.  The contents are kept.
\<close>

theorem set_vector_exact_fit_doubles:
  "set_vector False Inr 0 (vec [1, 2, 3, 4 :: int])
     \<lparr>flattened_data = [0, 0, 0, 0], cumulative_length = [0],
      dtype = ''int64'', attrs = [], index = None, flattened_refs = 0\<rparr>
   = Some (Inr (), \<lparr>flattened_data = [1, 2, 3, 4, 0, 0, 0, 0], cumulative_length = [4],
                     dtype = ''int64'', attrs = [], index = None, flattened_refs = 0\<rparr>)
   \<and> set_vector True Inr 0 (vec [1, 2, 3, 4 :: int])
     \<lparr>flattened_data = [0, 0, 0, 0], cumulative_length = [0],
      dtype = ''int64'', attrs = [], index = None, flattened_refs = 0\<rparr>
   = Some (Inr (), \<lparr>flattened_data = [1, 2, 3, 4, 0, 0, 0, 0], cumulative_length = [4],
                     dtype = ''int64'', attrs = [], index = None, flattened_refs = 0\<rparr>)"
  by (simp add: set_vector_def vec_def grow_flattened.simps nda_resize_def slice_assign_def
        Let_def replicate_4)

text \<open>
  The same for every buffer with some capacity that nothing else refers to: at \<open>end\<close>
  equal to the capacity the loop doubles once.
\<close>

lemma grow_flattened_exact_fit:
  assumes "xs \<noteq> []"
  shows "grow_flattened 0 (length xs) xs = Some (None, xs @ replicate (length xs) 0)"
proof -
  have "grow_flattened 0 (length xs) xs
        = grow_flattened 0 (length xs) (xs @ replicate (length xs) 0)"
    by (subst grow_flattened.simps) (simp add: nda_resize_double)
  also have "\<dots> = Some (None, xs @ replicate (length xs) 0)"
    using assms by (subst grow_flattened.simps) simp
  finally show ?thesis .
qed

subsection \<open>Writing rows and reading them back\<close>

lemma set_vector_writes:
  assumes i: "i < length (cumulative_length self)" and ne: "flattened_data self \<noteq> []"
    and refs: "flattened_refs self = 0"
    and same: "\<forall>x\<in>set r. cast x = Inr x"
    and fit: "row_start self i + length r < 2 ^ 32"
  shows "\<exists>k. row_start self i + length r < length (flattened_data self) + k
           \<and> set_vector nep50 cast (int i) (vec r) self
             = Some (Inr (),
                 self\<lparr>flattened_data :=
                        take (row_start self i) (flattened_data self @ replicate k 0) @ r @
                        drop (row_start self i + length r) (flattened_data self @ replicate k 0),
                      cumulative_length :=
                        (cumulative_length self)[i := of_nat (row_start self i + length r)]\<rparr>)"
proof -
  let ?start = "row_start self i"
  let ?stop = "?start + length r"
  from grow_flattened_Some [OF ne, of ?stop] obtain k
    where k: "grow_flattened 0 ?stop (flattened_data self)
              = Some (None, flattened_data self @ replicate k 0)"
      and lt: "?stop < length (flattened_data self) + k"
    by blast
  define g where "g = flattened_data self @ replicate k 0"
  from lt have "?start + length r < length g" by (simp add: g_def)
  moreover have "cast_all cast r = (r, None)" using same by (rule cast_all_same)
  ultimately have sa: "slice_assign g ?start ?stop cast r = (None, take ?start g @ r @ drop ?stop g)"
    by (intro slice_assign_fits) simp_all
  have v: "length (shape (vec r)) = 1" "wf_ndarray (vec r)" "flat (vec r) = r"
    by (simp_all add: vec_def wf_ndarray_def)
  have fit': "row_start self i + length (flat (vec r)) < 2 ^ 32" using fit by (simp add: v)
  have "set_vector nep50 cast (int i) (vec r) self
        = Some (Inr (), self\<lparr>flattened_data := take ?start g @ r @ drop ?stop g,
                 cumulative_length := (cumulative_length self)[i := of_nat ?stop]\<rparr>)"
    unfolding set_vector_valid [OF i v(1,2) fit']
    by (simp only: v(3) refs k [folded g_def] sa option.case prod.case)
  with lt show ?thesis unfolding g_def by blast
qed

lemma set_rows_writes:
  assumes "i + length rs \<le> length (cumulative_length self)"
    and "flattened_data self \<noteq> []"
    and "row_start self i + length (concat rs) < 2 ^ 32"
    and "flattened_refs self = 0"
    and "\<forall>x\<in>set (concat rs). cast x = Inr x"
  shows "\<exists>self'. set_rows nep50 cast i rs self = Some (Inr (), self')
      \<and> length (cumulative_length self') = length (cumulative_length self)
      \<and> (\<forall>j<i. cumulative_length self' ! j = cumulative_length self ! j)
      \<and> (row_start self i \<le> length (flattened_data self) \<longrightarrow>
           take (row_start self i) (flattened_data self')
           = take (row_start self i) (flattened_data self))
      \<and> flattened_data self' \<noteq> []
      \<and> (\<forall>k<length rs. row_at self' (i + k) = rs ! k)"
  using assms
proof (induction rs arbitrary: i self)
  case Nil
  then show ?case by simp
next
  case (Cons r rs)
  define off where "off = row_start self i"
  define e where "e = off + length r"
  let ?cl = "cumulative_length self"
  let ?fd = "flattened_data self"
  from Cons.prems(1) have i: "i < length ?cl" by simp
  have same_r: "\<forall>x\<in>set r. cast x = Inr x" using Cons.prems(5) by simp
  have e32: "e < 2 ^ 32"
    using Cons.prems(3) by (simp add: e_def off_def)
  then have fit: "row_start self i + length r < 2 ^ 32" by (simp add: e_def off_def)
  from set_vector_writes [OF i Cons.prems(2) Cons.prems(4) same_r fit, of nep50] obtain k
    where lt: "e < length ?fd + k"
      and sv: "set_vector nep50 cast (int i) (vec r) self
               = Some (Inr (), self\<lparr>flattened_data :=
                          take off (?fd @ replicate k 0) @ r @ drop e (?fd @ replicate k 0),
                        cumulative_length := ?cl[i := of_nat e]\<rparr>)"
    unfolding off_def e_def by blast
  define g where "g = ?fd @ replicate k 0"
  define f1 where "f1 = take off g @ r @ drop e g"
  define s1 where "s1 = self\<lparr>flattened_data := f1, cumulative_length := ?cl[i := of_nat e]\<rparr>"
  have sv': "set_vector nep50 cast (int i) (vec r) self = Some (Inr (), s1)"
    using sv by (simp only: s1_def f1_def g_def)
  have fd1: "flattened_data s1 = f1" and cl1: "cumulative_length s1 = ?cl[i := of_nat e]"
    and refs1: "flattened_refs s1 = 0"
    using Cons.prems(4) by (simp_all add: s1_def)
  have eg: "e < length g" using lt by (simp add: g_def)
  have off_e: "off \<le> e" by (simp add: e_def)
  have len_f1: "length f1 = length g"
    using eg off_e by (simp add: f1_def e_def)
  have take_f1: "take e f1 = take off g @ r"
    using eg off_e by (simp add: f1_def e_def)
  have start1: "row_start s1 (Suc i) = e"
    using i e32 by (simp add: row_start_def cl1 unat_of_nat_32)
  have p1: "Suc i + length rs \<le> length (cumulative_length s1)"
    using Cons.prems(1) by (simp add: cl1)
  have p2: "flattened_data s1 \<noteq> []"
    using eg len_f1 by (auto simp add: fd1)
  have p3: "row_start s1 (Suc i) + length (concat rs) < 2 ^ 32"
    using Cons.prems(3) by (simp add: start1 e_def off_def)
  have p5: "\<forall>x\<in>set (concat rs). cast x = Inr x" using Cons.prems(5) by simp
  from Cons.IH [OF p1 p2 p3 refs1 p5] obtain self'
    where run: "set_rows nep50 cast (Suc i) rs s1 = Some (Inr (), self')"
      and len: "length (cumulative_length self') = length (cumulative_length s1)"
      and keep: "\<forall>j<Suc i. cumulative_length self' ! j = cumulative_length s1 ! j"
      and pre: "row_start s1 (Suc i) \<le> length (flattened_data s1) \<longrightarrow>
                take (row_start s1 (Suc i)) (flattened_data self')
                = take (row_start s1 (Suc i)) (flattened_data s1)"
      and ne: "flattened_data self' \<noteq> []"
      and rows: "\<forall>k<length rs. row_at self' (Suc i + k) = rs ! k"
    by blast
  have take_e: "take e (flattened_data self') = take off g @ r"
    using pre eg len_f1 by (simp add: start1 fd1 take_f1)
  have A: "set_rows nep50 cast i (r # rs) self = Some (Inr (), self')"
    using sv' run by simp
  have B: "length (cumulative_length self') = length ?cl"
    using len by (simp add: cl1)
  have C: "\<forall>j<i. cumulative_length self' ! j = ?cl ! j"
    using keep by (simp add: cl1)
  have D: "off \<le> length ?fd \<longrightarrow> take off (flattened_data self') = take off ?fd"
  proof
    assume le: "off \<le> length ?fd"
    have "take off (flattened_data self') = take off (take e (flattened_data self'))"
      using off_e by (simp add: min_def)
    also have "\<dots> = take off (take off g @ r)" by (simp only: take_e)
    also have "\<dots> = take off g" using le by (simp add: g_def)
    also have "\<dots> = take off ?fd" using le by (simp add: g_def)
    finally show "take off (flattened_data self') = take off ?fd" .
  qed
  have start': "row_start self' i = off"
    using C by (auto simp add: row_start_def off_def)
  have end': "unat (cumulative_length self' ! i) = e"
    using keep i e32 by (simp add: cl1 unat_of_nat_32)
  have og: "off \<le> length g" using eg off_e by simp
  have row_i: "row_at self' i = r"
  proof -
    have "row_at self' i = drop off (take e (flattened_data self'))"
      by (simp add: row_at_def slice_def start' end')
    also have "\<dots> = drop off (take off g @ r)" by (simp only: take_e)
    also have "\<dots> = r" using og by simp
    finally show ?thesis .
  qed
  have E: "\<forall>k<length (r # rs). row_at self' (i + k) = (r # rs) ! k"
  proof (intro allI impI)
    fix k assume "k < length (r # rs)"
    then show "row_at self' (i + k) = (r # rs) ! k"
      using row_i rows by (cases k) auto
  qed
  from A B C D E ne show ?case unfolding off_def by blast
qed

lemma row_at_cursor [simp]:
  "row_at (self\<lparr>index := x, flattened_refs := y\<rparr>) j = row_at self j"
  by (simp add: row_at_def row_start_def)

lemma next_row_in_range:
  assumes "index self = Some i" "i < length (cumulative_length self)"
  shows "next_row self
         = (Inr (row_at self i),
            self\<lparr>index := Some (Suc i), flattened_refs := flattened_refs self + 1\<rparr>)"
  using assms by (cases i) (auto simp add: next_row_def row_at_def row_start_def Let_def)

lemma next_row_at_end:
  assumes "index self = Some i" "length (cumulative_length self) \<le> i"
  shows "next_row self = (Inl StopIteration, self)"
  using assms by (cases i) (auto simp add: next_row_def Let_def)

lemma collect_rows:
  assumes "index self = Some i" and "i \<le> length (cumulative_length self)"
  shows "collect self
         = (Inr (map (row_at self) [i..<length (cumulative_length self)]),
            self\<lparr>index := Some (length (cumulative_length self)),
                 flattened_refs := flattened_refs self + (length (cumulative_length self) - i)\<rparr>)"
  using assms
proof (induction "length (cumulative_length self) - i" arbitrary: self i)
  case 0
  then have eq: "i = length (cumulative_length self)" by simp
  then have "length (cumulative_length self) \<le> i" by simp
  with "0.prems"(1) have "next_row self = (Inl StopIteration, self)"
    by (rule next_row_at_end)
  then show ?case using eq "0.prems"(1) by (subst collect.simps) simp
next
  case (Suc n)
  then have lt: "i < length (cumulative_length self)" by simp
  let ?s = "self\<lparr>index := Some (Suc i), flattened_refs := flattened_refs self + 1\<rparr>"
  from Suc.prems(1) lt have nr: "next_row self = (Inr (row_at self i), ?s)"
    by (rule next_row_in_range)
  have "n = length (cumulative_length ?s) - Suc i" using Suc.hyps(2) by simp
  moreover have "index ?s = Some (Suc i)" by simp
  moreover have "Suc i \<le> length (cumulative_length ?s)" using lt by simp
  ultimately have "collect ?s
        = (Inr (map (row_at ?s) [Suc i..<length (cumulative_length ?s)]),
           ?s\<lparr>index := Some (length (cumulative_length ?s)),
               flattened_refs := flattened_refs ?s + (length (cumulative_length ?s) - Suc i)\<rparr>)"
    by (rule Suc.hyps(1))
  then have "collect self
        = (Inr (row_at self i # map (row_at self) [Suc i..<length (cumulative_length self)]),
           self\<lparr>index := Some (length (cumulative_length self)),
                flattened_refs := flattened_refs self + 1 + (length (cumulative_length self) - Suc i)\<rparr>)"
    using nr by (subst collect.simps) simp
  moreover have "flattened_refs self + 1 + (length (cumulative_length self) - Suc i)
                 = flattened_refs self + (length (cumulative_length self) - i)"
    using lt by simp
  ultimately show ?case using lt by (simp add: upt_conv_Cons)
qed

lemma to_list_rows:
  "to_list self
   = (Inr (map (row_at self) [0..<length (cumulative_length self)]),
      self\<lparr>index := Some (length (cumulative_length self)),
           flattened_refs := flattened_refs self + length (cumulative_length self)\<rparr>)"
proof -
  have "row_at (iter self) = row_at self"
    by (rule ext) (simp add: iter_def row_at_def row_start_def)
  with collect_rows [of "iter self" 0] show ?thesis
    by (simp add: to_list_def iter_def)
qed

text \<open>
  C1, as the code has it.  Take a store whose flattened buffer has some capacity and
  is referred to by nothing else, and rows \<open>r0, \<dots>, rn\<close> whose elements the conversion
  to the element type of the store leaves as they are, no more rows than the row
  capacity, of a total length below \<open>2 ^ 32\<close>.  Writing them with \<open>set_vector\<close> at the
  indices \<open>0, \<dots>, n\<close> in order returns without an error, and iterating over the store
  afterwards yields \<open>ri\<close> as element \<open>i\<close>, for every \<open>i \<le> n\<close>, under either version
  of NumPy.  Rows may be empty and may be longer than the buffer was at the start.
\<close>

theorem set_rows_roundtrip:
  assumes "flattened_data self \<noteq> []"
    and "flattened_refs self = 0"
    and "length rows \<le> length (cumulative_length self)"
    and "length (concat rows) < 2 ^ 32"
    and "\<forall>x\<in>set (concat rows). cast x = Inr x"
  shows "\<exists>self' out. set_rows nep50 cast 0 rows self = Some (Inr (), self')
           \<and> fst (to_list self') = Inr out
           \<and> length rows \<le> length out
           \<and> (\<forall>i<length rows. out ! i = rows ! i)"
proof -
  have "row_start self 0 + length (concat rows) < 2 ^ 32"
    using assms(4) by (simp add: row_start_def)
  with set_rows_writes [of 0 rows self cast nep50] assms obtain self'
    where run: "set_rows nep50 cast 0 rows self = Some (Inr (), self')"
      and len: "length (cumulative_length self') = length (cumulative_length self)"
      and rows: "\<forall>k<length rows. row_at self' (0 + k) = rows ! k"
    by auto
  let ?out = "map (row_at self') [0..<length (cumulative_length self')]"
  have "fst (to_list self') = Inr ?out" by (simp add: to_list_rows)
  moreover have "length rows \<le> length ?out" using assms(3) len by simp
  moreover have "\<forall>i<length rows. ?out ! i = rows ! i"
    using rows assms(3) len by simp
  ultimately show ?thesis using run by blast
qed

text \<open>
  Three rows into a store with room for two elements and four rows: the first row
  already needs the buffer doubled, the second is empty.
\<close>

theorem set_rows_roundtrip_witness:
  "\<exists>self' out.
      set_rows False Inr 0 [[1, 2, 3], [], [4, 5, 6, 7, 8 :: int]]
        \<lparr>flattened_data = [0, 0], cumulative_length = [0, 0, 0, 0],
         dtype = ''int64'', attrs = [], index = None, flattened_refs = 0\<rparr>
      = Some (Inr (), self')
      \<and> fst (to_list self') = Inr out
      \<and> take 3 out = [[1, 2, 3], [], [4, 5, 6, 7, 8 :: int]]"
proof -
  let ?st = "\<lparr>flattened_data = [0, 0 :: int], cumulative_length = [0, 0, 0, 0],
              dtype = ''int64'', attrs = [], index = None, flattened_refs = 0\<rparr>"
  let ?rows = "[[1, 2, 3], [], [4, 5, 6, 7, 8 :: int]]"
  from set_rows_roundtrip [of ?st ?rows Inr False] obtain self' out
    where run: "set_rows False Inr 0 ?rows ?st = Some (Inr (), self')"
      and out: "fst (to_list self') = Inr out"
      and len: "length ?rows \<le> length out"
      and nth: "\<forall>i<length ?rows. out ! i = ?rows ! i"
    by auto
  have "take 3 out = ?rows"
  proof (rule nth_equalityI)
    show "length (take 3 out) = length ?rows" using len by simp
  next
    fix i assume "i < length (take 3 out)"
    then have "i < length ?rows" by simp
    with nth show "take 3 out ! i = ?rows ! i" by simp
  qed
  with run out show ?thesis by auto
qed

text \<open>
  C1 as it is worded fails twice.  A store with the row \<open>[1, 2]\<close> in a buffer of
  two elements is read with \<open>list\<close>, and the row read is kept: it is a view of the
  buffer.  Writing the row \<open>[1, 2, 3]\<close> then needs the buffer doubled, and
  \<open>set_vector\<close> raises \<open>ValueError\<close>, under either version of NumPy: nothing is
  written.  And on a store of bytes, the row \<open>[300]\<close> of wider integers is converted
  as it is written, and reading gives \<open>[44]\<close> back.
\<close>

theorem set_rows_shared_buffer_counterexample:
  "to_list \<lparr>flattened_data = [1, 2 :: int], cumulative_length = [2],
            dtype = ''int64'', attrs = [], index = None, flattened_refs = 0\<rparr>
   = (Inr [[1, 2]],
      \<lparr>flattened_data = [1, 2], cumulative_length = [2],
       dtype = ''int64'', attrs = [], index = Some 1, flattened_refs = 1\<rparr>)
   \<and> set_rows False Inr 0 [[1, 2, 3 :: int]]
       \<lparr>flattened_data = [1, 2], cumulative_length = [2],
        dtype = ''int64'', attrs = [], index = Some 1, flattened_refs = 1\<rparr>
     = Some (Inl ValueError,
         \<lparr>flattened_data = [1, 2], cumulative_length = [2],
          dtype = ''int64'', attrs = [], index = Some 1, flattened_refs = 1\<rparr>)
   \<and> set_rows True Inr 0 [[1, 2, 3 :: int]]
       \<lparr>flattened_data = [1, 2], cumulative_length = [2],
        dtype = ''int64'', attrs = [], index = Some 1, flattened_refs = 1\<rparr>
     = Some (Inl ValueError,
         \<lparr>flattened_data = [1, 2], cumulative_length = [2],
          dtype = ''int64'', attrs = [], index = Some 1, flattened_refs = 1\<rparr>)
   \<and> set_rows False (\<lambda>x. Inr (x mod 256)) 0 [[300 :: int]]
       \<lparr>flattened_data = [0, 0], cumulative_length = [0],
        dtype = ''uint8'', attrs = [], index = None, flattened_refs = 0\<rparr>
     = Some (Inr (),
         \<lparr>flattened_data = [44, 0], cumulative_length = [1],
          dtype = ''uint8'', attrs = [], index = None, flattened_refs = 0\<rparr>)
   \<and> fst (to_list \<lparr>flattened_data = [44, 0 :: int], cumulative_length = [1],
               dtype = ''uint8'', attrs = [], index = None, flattened_refs = 0\<rparr>)
     = Inr [[44]]"
  by (simp add: set_vector_def vec_def grow_flattened.simps nda_resize_def slice_assign_def
        Let_def to_list_rows row_at_def row_start_def slice_def)

subsection \<open>Resizing\<close>

text \<open>
  C9.  \<open>resize\<close> changes the cumulative lengths only: they are cut or filled up with
  zeros to the new row count, and the flattened data, the element type, the attributes,
  the cursor and the count of references are what they were.
\<close>

theorem resize_offsets_only:
  "flattened_data (resize n self) = flattened_data self
   \<and> dtype (resize n self) = dtype self
   \<and> attrs (resize n self) = attrs self
   \<and> index (resize n self) = index self
   \<and> flattened_refs (resize n self) = flattened_refs self
   \<and> length (cumulative_length (resize n self)) = n
   \<and> take (min n (length (cumulative_length self))) (cumulative_length (resize n self))
     = take n (cumulative_length self)
   \<and> drop (length (cumulative_length self)) (cumulative_length (resize n self))
     = replicate (n - length (cumulative_length self)) 0"
  by (auto simp add: resize_def Array_resize_def min_def)

subsection \<open>Construction\<close>

text \<open>
  C10, as the code has it.  Constructing a store without \<open>flattened_data\<close> and with a
  \<open>shape_guess\<close> raises \<open>ValueError\<close> if and only if there is no \<open>dtype\<close> either.
  With a \<open>dtype\<close> the flattened buffer has \<open>shape_guess[0] * shape_guess[1]\<close>
  elements, and the cumulative lengths are \<open>shape_guess[0]\<close> zeros when none were
  supplied, and the supplied array otherwise.
\<close>

theorem init_without_flattened_data:
  "(VectorOfVectors_init fresh et None cl (Some (n, m)) dt at = Inl ValueError \<longleftrightarrow> dt = None)
   \<and> (\<exists>v. VectorOfVectors_init fresh et None cl (Some (n, m)) (Some d) at = Inr v
          \<and> length (flattened_data v) = n * m
          \<and> cumulative_length v = (case cl of None \<Rightarrow> replicate n 0 | Some c \<Rightarrow> c))"
  by (auto simp add: VectorOfVectors_init_def Let_def split: option.splits)

text \<open>
  C10 as it is worded fails twice.  With the cumulative lengths \<open>[5]\<close> supplied, a
  shape guess and a \<open>dtype\<close>, the store keeps \<open>[5]\<close>: no zero-filled array is
  allocated.  With nothing supplied at all the constructor raises \<open>TypeError\<close> at
  \<open>shape_guess[0]\<close>, not \<open>ValueError\<close>.
\<close>

theorem init_cumulative_length_counterexample:
  "VectorOfVectors_init (\<lambda>k. 0 :: int) ''real'' None (Some [5]) (Some (1, 1)) (Some ''float64'') None
   = Inr \<lparr>flattened_data = [0], cumulative_length = [5], dtype = ''float64'',
          attrs = [(''datatype'', ''array<1>{array<1>{real}}'')], index = None,
          flattened_refs = 0\<rparr>
   \<and> VectorOfVectors_init (\<lambda>k. 0 :: int) ''real'' None None None None None = Inl TypeError"
  by (simp add: VectorOfVectors_init_def form_datatype_def)

section \<open>Properties of the stream engine\<close>

subsection \<open>The packet loop\<close>

lemma state_after_shift: "state_after rp (Suc k) s = state_after rp k (snd (rp s))"
  by (induction k) simp_all

lemma has_data_shift: "has_data rp (Suc (Suc k)) s = has_data rp (Suc k) (snd (rp s))"
  by (simp add: has_data_def state_after_shift del: state_after.simps)

lemma stop_after_shift:
  "stop_after rp mode (Suc (Suc k)) s = stop_after rp mode (Suc k) (snd (rp s))"
  by (simp only: stop_after_def has_data_shift state_after_shift)

lemma read_loop_first_stop:
  assumes "stop_after rp mode (Suc k) s"
    and "\<forall>j<k. \<not> stop_after rp mode (Suc j) s"
    and "n + int (Suc k) \<le> rp_max"
  shows "read_loop rp (mode = Some ''single_packet'') rp_max n s
         = (if has_data rp (Suc k) s then n + int (Suc k) else n + int (Suc k) - 1,
            state_after rp (Suc k) s)"
  using assms
proof (induction k arbitrary: n s)
  case 0
  obtain d s' where r: "rp s = (d, s')" by (cases "rp s")
  from 0(1) r have "\<not> d \<or> mode = Some ''single_packet'' \<or> any_full s'"
    by (auto simp add: stop_after_def has_data_def split: if_splits)
  with r show ?case
    by (subst read_loop.simps) (auto simp add: has_data_def)
next
  case (Suc k)
  obtain d s' where r: "rp s = (d, s')" by (cases "rp s")
  from Suc.prems(2) have "\<not> stop_after rp mode (Suc 0) s" by simp
  with r have first: "d" "mode \<noteq> Some ''single_packet''" "\<not> any_full s'"
    by (auto simp add: stop_after_def has_data_def split: if_splits)
  from Suc.prems(3) have cap: "\<not> n + 1 > rp_max" by simp
  have step: "read_loop rp (mode = Some ''single_packet'') rp_max n s
              = read_loop rp (mode = Some ''single_packet'') rp_max (n + 1) s'"
    using r first cap by (subst read_loop.simps) simp
  have a: "stop_after rp mode (Suc k) s'"
    using Suc.prems(1) r by (simp add: stop_after_shift)
  have b: "\<forall>j<k. \<not> stop_after rp mode (Suc j) s'"
  proof (intro allI impI)
    fix j assume "j < k"
    then have "\<not> stop_after rp mode (Suc (Suc j)) s" using Suc.prems(2) by simp
    then show "\<not> stop_after rp mode (Suc j) s'" using r by (simp add: stop_after_shift)
  qed
  have c: "(n + 1) + int (Suc k) \<le> rp_max" using Suc.prems(3) by simp
  from Suc.IH [OF a b c] step r show ?case
    by (simp add: has_data_shift state_after_shift del: state_after.simps)
qed

text \<open>
  C2, as the code has it.  Let call number \<open>K\<close> of \<open>read_packet\<close> be the first after
  which no data remains, or the mode in force (the override, else the mode of the engine)
  is \<open>single_packet\<close>, or the flag \<open>any_full\<close> is set, whatever the mode; and let
  \<open>K\<close> be at most \<open>rp_max\<close>.  Then the loop of \<open>read_chunk\<close> makes exactly \<open>K\<close>
  calls: it ends with the engine as call \<open>K\<close> left it, having counted \<open>K\<close> packets,
  or \<open>K - 1\<close> when call \<open>K\<close> found no data.  Nothing is said here about a run that
  reaches the packet cap first.
\<close>

theorem read_chunk_stops_at_first:
  assumes "1 \<le> K" and "int K \<le> rp_max"
    and "stop_after rp (mode_in_force chunk_mode_override self) K self"
    and "\<forall>j. 1 \<le> j \<and> j < K \<longrightarrow> \<not> stop_after rp (mode_in_force chunk_mode_override self) j self"
  shows "read_loop rp (mode_in_force chunk_mode_override self = Some ''single_packet'') rp_max 0 self
         = (if has_data rp K self then int K else int K - 1, state_after rp K self)
       \<and> snd (read_chunk rp chunk_mode_override rp_max self) = state_after rp K self"
proof -
  from assms(1) obtain k where K: "K = Suc k" by (cases K) auto
  have "\<forall>j<k. \<not> stop_after rp (mode_in_force chunk_mode_override self) (Suc j) self"
    using assms(4) K by simp
  with assms(2,3) K
  have loop: "read_loop rp (mode_in_force chunk_mode_override self = Some ''single_packet'') rp_max 0 self
         = (if has_data rp K self then int K else int K - 1, state_after rp K self)"
    using read_loop_first_stop [of rp "mode_in_force chunk_mode_override self" k self 0 rp_max]
    by simp
  have "snd (read_chunk rp chunk_mode_override rp_max self)
        = snd (read_loop rp (mode_in_force chunk_mode_override self = Some ''single_packet'') rp_max 0 self)"
    by (simp add: read_chunk_def mode_in_force_def Let_def split: prod.splits option.splits)
  with loop show ?thesis by simp
qed

text \<open>
  Three packets, the second of which fills a buffer, read with the override
  \<open>only_full\<close>: the loop ends after the second call, 20 bytes into the stream.
\<close>

theorem read_chunk_stops_at_first_witness:
  "snd (read_chunk list_read_packet (Some ''only_full'') 1000000
          \<lparr>rb_lib = Some [], chunk_mode = Some ''any_full'', n_bytes_read = 0,
           any_full = False, source = [(8, False), (12, True), (8, False)]\<rparr>)
   = state_after list_read_packet 2
          \<lparr>rb_lib = Some [], chunk_mode = Some ''any_full'', n_bytes_read = 0,
           any_full = False, source = [(8, False), (12, True), (8, False)]\<rparr>
   \<and> state_after list_read_packet 2
          \<lparr>rb_lib = Some [], chunk_mode = Some ''any_full'', n_bytes_read = 0,
           any_full = False, source = [(8, False), (12, True), (8, False)]\<rparr>
     = \<lparr>rb_lib = Some [], chunk_mode = Some ''any_full'', n_bytes_read = 20,
        any_full = True, source = [(8, False)]\<rparr>"
proof -
  let ?s = "\<lparr>rb_lib = Some [], chunk_mode = Some ''any_full'', n_bytes_read = 0,
            any_full = False, source = [(8 :: nat, False), (12, True), (8, False)]\<rparr>"
  have two: "state_after list_read_packet 2 ?s
             = \<lparr>rb_lib = Some [], chunk_mode = Some ''any_full'', n_bytes_read = 20,
                any_full = True, source = [(8, False)]\<rparr>"
    by (simp add: eval_nat_numeral list_read_packet_def)
  have one: "state_after list_read_packet 1 ?s
             = \<lparr>rb_lib = Some [], chunk_mode = Some ''any_full'', n_bytes_read = 8,
                any_full = False, source = [(12, True), (8, False)]\<rparr>"
    by (simp add: list_read_packet_def)
  have h3: "stop_after list_read_packet (mode_in_force (Some ''only_full'') ?s) 2 ?s"
    by (simp add: stop_after_def two)
  have h4: "\<forall>j. 1 \<le> j \<and> j < 2 \<longrightarrow>
              \<not> stop_after list_read_packet (mode_in_force (Some ''only_full'') ?s) j ?s"
  proof (intro allI impI)
    fix j :: nat assume "1 \<le> j \<and> j < 2"
    then have "j = 1" by simp
    then show "\<not> stop_after list_read_packet (mode_in_force (Some ''only_full'') ?s) j ?s"
      using one by (simp add: stop_after_def has_data_def mode_in_force_def list_read_packet_def)
  qed
  from read_chunk_stops_at_first [of 2 1000000 list_read_packet "Some ''only_full''" ?s, OF _ _ h3 h4]
  have "snd (read_chunk list_read_packet (Some ''only_full'') 1000000 ?s)
        = state_after list_read_packet 2 ?s"
    by simp
  with two show ?thesis by simp
qed

text \<open>
  C2 as the specification words it fails with the override \<open>only_full\<close> on a stream
  whose first packet fills a buffer: the loop ends after that packet, with two packets
  still unread, although data remains, the policy is not \<open>single_packet\<close>, one packet
  is not \<open>rp_max\<close> packets, and the policy is not \<open>any_full\<close>.
\<close>

theorem read_chunk_only_full_counterexample:
  "read_chunk list_read_packet (Some ''only_full'') 1000000
     \<lparr>rb_lib = Some [], chunk_mode = Some ''any_full'', n_bytes_read = 0,
      any_full = False, source = [(8, True), (8, False), (8, False)]\<rparr>
   = (Inr [], \<lparr>rb_lib = Some [], chunk_mode = Some ''any_full'', n_bytes_read = 8,
                any_full = True, source = [(8, False), (8, False)]\<rparr>)
   \<and> \<not> spec_stop list_read_packet (Some ''only_full'') 1000000 1
         \<lparr>rb_lib = Some [], chunk_mode = Some ''any_full'', n_bytes_read = 0,
          any_full = False, source = [(8, True), (8, False), (8, False)]\<rparr>"
  by (simp add: read_chunk_def read_loop.simps list_read_packet_def
        spec_stop_def has_data_def)

text \<open>
  The packet cap on a stream that never fills a buffer: with \<open>rp_max = 2\<close> the test
  \<open>n_packets > rp_max\<close> lets a third packet through.
\<close>

lemma read_chunk_cap_example:
  "read_chunk list_read_packet (Some ''only_full'') 2
     \<lparr>rb_lib = Some [], chunk_mode = Some ''any_full'', n_bytes_read = 0,
      any_full = False, source = [(8, False), (8, False), (8, False), (8, False)]\<rparr>
   = (Inr [], \<lparr>rb_lib = Some [], chunk_mode = Some ''any_full'', n_bytes_read = 24,
                any_full = False, source = [(8, False)]\<rparr>)"
  by (simp add: read_chunk_def read_loop.simps list_read_packet_def)

subsection \<open>What \<open>read_chunk\<close> returns\<close>

text \<open>
  C3.  Two streams of one packet each, of 8 and of 16 bytes, neither writing to a
  buffer, on an engine with an empty library: \<open>read_chunk\<close> returns the same value, the
  empty list, for both, so the value does not tell how many bytes were consumed.  The
  count is only in the field \<open>n_bytes_read\<close> of the engine, 8 and 16.
\<close>

theorem read_chunk_returns_list_only:
  "read_chunk list_read_packet None 1000000
     \<lparr>rb_lib = Some [], chunk_mode = Some ''any_full'', n_bytes_read = 0,
      any_full = False, source = [(8, False)]\<rparr>
   = (Inr [], \<lparr>rb_lib = Some [], chunk_mode = Some ''any_full'', n_bytes_read = 8,
                any_full = False, source = []\<rparr>)
   \<and> read_chunk list_read_packet None 1000000
     \<lparr>rb_lib = Some [], chunk_mode = Some ''any_full'', n_bytes_read = 0,
      any_full = False, source = [(16, False)]\<rparr>
   = (Inr [], \<lparr>rb_lib = Some [], chunk_mode = Some ''any_full'', n_bytes_read = 16,
                any_full = False, source = []\<rparr>)"
  by (simp add: read_chunk_def read_loop.simps list_read_packet_def)

subsection \<open>Wildcard buffers in \<open>open_stream\<close>\<close>

text \<open>
  A decoder that is neither in the library nor covered by \<open>'*'\<close> is passed over: the
  loop goes on with the library and the stored names as they were.
\<close>

lemma init_buffers_skips:
  assumes "map_of lib (class_name decoder) = None" and "map_of lib ''*'' = None"
  shows "init_buffers raw_buffer_bound buffer_size (decoder # decoders) lib dec_names
         = init_buffers raw_buffer_bound buffer_size decoders lib dec_names"
  using assms by simp

text \<open>
  C8.  The decoder \<open>FooDecoder\<close> and a library with only the wildcard entry, whose
  template has \<open>{name}\<close> as its name and \<open>{name}.lh5\<close> as its destination.  The
  module as it is written raises \<open>NameError\<close> at \<open>RawBuffer\<close> and stores nothing.
  With the name bound, the new buffer is stored under \<open>FooDecoder\<close>, but its
  destination is \<open>FooDecoder.lh5\<close>, with the suffix still there, and its name is the
  decoder object.  The stripped name would be \<open>Foo\<close> and the destination \<open>Foo.lh5\<close>.
\<close>

theorem open_stream_wildcard_keeps_suffix:
  "open_stream False [Decoder ''FooDecoder''] ''run0''
     (Some [(''*'', [\<lparr>out_stream = ''{name}.lh5'', out_name = Str ''{name}'',
                      loc = 0, lgdo_len = None\<rparr>])])
     8192 ''any_full'' [] (DataStreamer_init ())
   = Inl NameError
   \<and> open_stream True [Decoder ''FooDecoder''] ''run0''
     (Some [(''*'', [\<lparr>out_stream = ''{name}.lh5'', out_name = Str ''{name}'',
                      loc = 0, lgdo_len = None\<rparr>])])
     8192 ''any_full'' [] (DataStreamer_init ())
   = Inr ([''Warning: no decoder named * requested by rb_lib''],
          \<lparr>rb_lib = Some [(''*'', [\<lparr>out_stream = ''{name}.lh5'', out_name = Str ''{name}'',
                                     loc = 0, lgdo_len = None\<rparr>]),
                           (''FooDecoder'',
                            [\<lparr>out_stream = ''FooDecoder.lh5'',
                              out_name = Obj (Decoder ''FooDecoder''),
                              loc = 0, lgdo_len = Some 8192\<rparr>])],
            chunk_mode = Some ''any_full'', n_bytes_read = 0, any_full = False,
            source = ()\<rparr>)
   \<and> removesuffix ''FooDecoder'' ''Decoder'' = ''Foo''
   \<and> format_str ''{name}.lh5'' (removesuffix ''FooDecoder'' ''Decoder'') = Inr ''Foo.lh5''"
  by (simp add: open_stream_def setup_wildcard_def RawBuffer_new_def make_lgdos_def
        DataStreamer_init_def format_field_def removesuffix_def endswith_def Let_def)

end
